theory Spec2Isabelle
  imports Complex_Main
begin

section \<open>Time formatting (\<open>formatTime\<close>)\<close>

text \<open>
  \<open>formatTime\<close> (lines 307 to 311) receives a JavaScript Number, a double, and is
  called with \<open>pauseTimeRef.current\<close> and the duration of the buffer, which are never
  negative; the model is for nonnegative finite arguments, written as reals.

  \<open>seconds % 60\<close> is exact on doubles: it is the remainder whose sign follows the
  dividend (the quotient is truncated towards zero).
\<close>

definition js_rem :: "real \<Rightarrow> real \<Rightarrow> real" where
  "js_rem x y = x - y * of_int (if 0 \<le> x / y then \<lfloor>x / y\<rfloor> else \<lceil>x / y\<rceil>)"

text \<open>
  \<open>seconds / 60\<close> is the exact quotient rounded to the nearest double, ties to the even
  mantissa. From \<open>2^50\<close> on the model rounds: a double \<open>x\<close> with \<open>2^(l-1) \<le> x < 2^l\<close>
  is a multiple of \<open>2^(l-53)\<close>, and \<open>l\<close> is the number of binary digits of \<open>floor x\<close>.
  Below \<open>2^50\<close> the model keeps the exact quotient, because there \<open>Math.floor\<close> of the
  rounded quotient is the floor of the exact one for every double \<open>seconds \<ge> 0\<close>: if
  \<open>seconds = m * 2^a\<close> with \<open>m < 2^53\<close> and \<open>k\<close> is the least integer with
  \<open>seconds < 60 * k\<close>, the rounded quotient reaches \<open>k\<close> only if \<open>60 * k - seconds\<close> is at
  most 30 units in the last place of the quotient, which is less than \<open>2^a\<close>. For
  \<open>a \<le> 2\<close>, \<open>60 * k - seconds\<close> is a positive multiple of \<open>2^a\<close>, so this cannot be;
  for \<open>a = 3\<close> it can be 4, and then the unit in the last place of the quotient must be
  at least \<open>1/4\<close>, that is, the quotient at least \<open>2^50\<close>. The first double at which the
  two floors differ is \<open>60 * 2^50 + 56\<close>.
\<close>

function bit_length :: "nat \<Rightarrow> nat" where
  "bit_length n = (if n = 0 then 0 else Suc (bit_length (n div 2)))"
  by pat_completeness auto
termination by (relation "measure id") auto

declare bit_length.simps [simp del]

definition round_half_even :: "real \<Rightarrow> int" where
  "round_half_even t =
     (if t - of_int \<lfloor>t\<rfloor> > 1 / 2 \<or> (t - of_int \<lfloor>t\<rfloor> = 1 / 2 \<and> odd \<lfloor>t\<rfloor>)
      then \<lfloor>t\<rfloor> + 1 else \<lfloor>t\<rfloor>)"

definition ulp_for :: "nat \<Rightarrow> real" where
  "ulp_for l = (if 53 \<le> l then 2 ^ (l - 53) else 1 / 2 ^ (53 - l))"

definition ulp_of :: "real \<Rightarrow> real" where
  "ulp_of x = ulp_for (bit_length (nat \<lfloor>x\<rfloor>))"

definition round_double :: "real \<Rightarrow> real" where
  "round_double x = of_int (round_half_even (x / ulp_of x)) * ulp_of x"

definition js_div_60 :: "real \<Rightarrow> real" where
  "js_div_60 x = (if x / 60 < 2 ^ 50 then x / 60 else round_double (x / 60))"

text \<open>
  \<open>Number.prototype.toString\<close> on an integer-valued Number. Below \<open>2^53\<close> every integer
  is a double and the only decimal integer that rounds to it is itself, so the string is
  its decimal digits. From \<open>2^53\<close> on the string has the digits of the least number \<open>k\<close>
  of digits \<open>s\<close> such that \<open>s * 10^(n-k)\<close> rounds to the Number (of several such \<open>s\<close> the
  one nearest to it), followed by \<open>n - k\<close> zeros while \<open>n \<le> 21\<close> and written in exponent
  notation beyond. Here \<open>n\<close> is the number \<open>d\<close> of decimal digits of the Number, or
  \<open>d + 1\<close> when \<open>10^d\<close> itself rounds to it. \<open>nat_to_double\<close> rounds a natural number to
  the nearest double (overflow to infinity, beyond \<open>2^1024\<close>, is not modelled).
\<close>

definition digit_char :: "nat \<Rightarrow> char" where
  "digit_char d = ''0123456789'' ! d"

function nat_toString :: "nat \<Rightarrow> string" where
  "nat_toString n = (if n < 10 then [digit_char n] else nat_toString (n div 10) @ [digit_char (n mod 10)])"
  by pat_completeness auto
termination by (relation "measure id") auto

declare nat_toString.simps [simp del]

definition round_at :: "nat \<Rightarrow> nat \<Rightarrow> nat" where
  "round_at m e =
     (if 2 ^ e < 2 * (m mod 2 ^ e) \<or> (2 * (m mod 2 ^ e) = 2 ^ e \<and> odd (m div 2 ^ e))
      then (m div 2 ^ e + 1) * 2 ^ e else (m div 2 ^ e) * 2 ^ e)"

definition nat_to_double :: "nat \<Rightarrow> nat" where
  "nat_to_double m = (if m < 2 ^ 53 then m else round_at m (bit_length m - 53))"

definition fits :: "nat \<Rightarrow> nat \<Rightarrow> nat \<Rightarrow> nat \<Rightarrow> bool" where
  "fits x d k s \<longleftrightarrow>
     10 ^ (k - 1) \<le> s \<and> s < 10 ^ k \<and> nat_to_double (s * 10 ^ (d - k)) = x"

definition candidates_near :: "nat \<Rightarrow> nat \<Rightarrow> nat \<Rightarrow> nat \<Rightarrow> nat list" where
  "candidates_near x d k lo =
     (if fits x d k lo then [lo] else []) @ (if fits x d k (lo + 1) then [lo + 1] else [])"

definition digit_candidates :: "nat \<Rightarrow> nat \<Rightarrow> nat \<Rightarrow> nat list" where
  "digit_candidates x d k = candidates_near x d k (x div 10 ^ (d - k))"

definition nearer :: "nat \<Rightarrow> nat \<Rightarrow> nat \<Rightarrow> nat \<Rightarrow> nat" where
  "nearer x p s1 s2 =
     (if x - s1 * p < s2 * p - x then s1
      else if s2 * p - x < x - s1 * p then s2
      else if even s1 then s1 else s2)"

definition closest_candidate :: "nat \<Rightarrow> nat \<Rightarrow> nat \<Rightarrow> nat list \<Rightarrow> nat" where
  "closest_candidate x d k cs =
     (case cs of
        [] \<Rightarrow> 0
      | [s] \<Rightarrow> s
      | s1 # s2 # _ \<Rightarrow> nearer x (10 ^ (d - k)) s1 s2)"

function shortest_digits :: "nat \<Rightarrow> nat \<Rightarrow> nat \<Rightarrow> (nat \<times> nat) option" where
  "shortest_digits x d k =
     (if d < k then None
      else case digit_candidates x d k of
             [] \<Rightarrow> shortest_digits x d (k + 1)
           | cs \<Rightarrow> Some (k, closest_candidate x d k cs))"
  by pat_completeness auto
termination by (relation "measure (\<lambda>(x, d, k). d + 1 - k)") auto

declare shortest_digits.simps [simp del]

definition mantissa :: "string \<Rightarrow> string" where
  "mantissa ds = (case ds of [] \<Rightarrow> [] | c # cs \<Rightarrow> if cs = [] then [c] else c # CHR ''.'' # cs)"

definition render_digits :: "nat \<Rightarrow> nat \<Rightarrow> nat \<Rightarrow> string" where
  "render_digits k s n =
     (if n \<le> 21 then nat_toString s @ replicate (n - k) CHR ''0''
      else mantissa (nat_toString s) @ ''e+'' @ nat_toString (n - 1))"

definition render_found :: "nat \<Rightarrow> nat \<Rightarrow> (nat \<times> nat) option \<Rightarrow> string" where
  "render_found x d found =
     (case found of None \<Rightarrow> nat_toString x | Some (k, s) \<Rightarrow> render_digits k s d)"

definition large_with_digits :: "nat \<Rightarrow> nat \<Rightarrow> string" where
  "large_with_digits x d =
     (if nat_to_double (10 ^ d) = x then render_digits 1 1 (d + 1)
      else render_found x d (shortest_digits x d 1))"

definition large_toString :: "nat \<Rightarrow> string" where
  "large_toString x = large_with_digits x (length (nat_toString x))"

definition nonneg_toString :: "nat \<Rightarrow> string" where
  "nonneg_toString m = (if m < 2 ^ 53 then nat_toString m else large_toString m)"

definition number_toString :: "int \<Rightarrow> string" where
  "number_toString n = (if n < 0 then CHR ''-'' # nonneg_toString (nat (- n)) else nonneg_toString (nat n))"

text \<open>\<open>padStart\<close> is modelled for a one-character pad string, the only way it is called.\<close>

definition padStart :: "nat \<Rightarrow> char \<Rightarrow> string \<Rightarrow> string" where
  "padStart targetLength c str = replicate (targetLength - length str) c @ str"

definition formatTime :: "real \<Rightarrow> string" where
  "formatTime seconds =
     (let mins = \<lfloor>js_div_60 seconds\<rfloor>;
          secs = \<lfloor>js_rem seconds 60\<rfloor>
      in padStart 2 CHR ''0'' (number_toString mins) @ '':'' @ padStart 2 CHR ''0'' (number_toString secs))"

text \<open>
  Observers used to state what a formatted string displays: the text before the colon,
  the text after it, and the number a string of decimal digits denotes.
\<close>

definition digit_value :: "char \<Rightarrow> nat" where
  "digit_value c = of_char c - 48"

definition decimal_value :: "string \<Rightarrow> nat" where
  "decimal_value str = foldl (\<lambda>acc c. 10 * acc + digit_value c) 0 str"

definition is_digit :: "char \<Rightarrow> bool" where
  "is_digit c = (c \<in> set ''0123456789'')"

definition minutes_field :: "string \<Rightarrow> string" where
  "minutes_field str = takeWhile (\<lambda>c. c \<noteq> CHR '':'') str"

definition seconds_field :: "string \<Rightarrow> string" where
  "seconds_field str = drop 1 (dropWhile (\<lambda>c. c \<noteq> CHR '':'') str)"

section \<open>The audio player component\<close>

text \<open>
  The component \<open>AudioPlayer\<close> keeps its playback session in React state
  (\<open>isPlaying\<close>, \<open>progress\<close>) and in refs (\<open>audioContextRef\<close>, \<open>sourceNodeRef\<close>,
  \<open>startTimeRef\<close>, \<open>pauseTimeRef\<close>, \<open>animationFrameRef\<close>); the decoded sample is the
  prop \<open>audioBuffer\<close>. A third piece of React state, \<open>isEditing\<close>, says that the script is
  being edited; together with \<open>audioBuffer\<close> it decides which buttons can be clicked. The
  spec's names are: \<open>pausedOffset\<close> for \<open>pauseTimeRef\<close>,
  \<open>referenceClockStart\<close> for \<open>startTimeRef\<close>, \<open>isActive\<close> for \<open>isPlaying\<close>, and
  \<open>progressFraction\<close> for \<open>progress / 100\<close> (the code keeps a percentage).

  Times are reals (seconds). The handlers are modelled by explicit state passing over
  one record that also holds the part of the browser the handlers act on: the audio
  context (whether it has been created, its run state and its clock), the source nodes
  the component no longer references, the pending animation-frame requests, and the
  continuations of \<open>playAudio\<close> that wait for \<open>resume()\<close>.

  Exceptions of the Web Audio API are values of type \<open>error\<close>; \<open>TypeError\<close> stands
  for a method call on \<open>null\<close>, which the guards of the handlers exclude.
\<close>

datatype error = InvalidStateError | RangeError | TypeError

text \<open>
  Of an \<open>AudioBuffer\<close> the component reads only \<open>duration\<close>. A decoded buffer has at
  least one sample frame, so its duration is positive; the theorems in which a division
  by the duration matters say so as a hypothesis (in HOL \<open>x / 0 = 0\<close>, in JavaScript it
  is \<open>NaN\<close> or infinite).
\<close>

record AudioBuffer =
  duration :: real

text \<open>
  An \<open>AudioBufferSourceNode\<close> (a rendering engine instance): its buffer, whether it
  is connected to the destination, and its playback state. \<open>Started when offset\<close> records
  the context time at which \<open>start(0, offset)\<close> was called and the offset into the buffer.
\<close>

datatype playback_state = Unscheduled | Started real real | Stopped

record source_node =
  buffer :: "AudioBuffer option"
  connected :: bool
  playback :: playback_state

datatype context_state = Suspended | Running

text \<open>
  Of the prop \<open>script\<close>, a string, the component tests \<open>script\<close> itself (false for the
  empty string only) and \<open>script.trim()\<close> (false also for a string of white space); the
  three classes of strings these tests tell apart stand for the string.
\<close>

datatype script_text = EmptyScript | BlankScript | TextScript

text \<open>
  The state. \<open>contextCreated\<close> says that \<open>audioContextRef.current\<close> is not null;
  \<open>contextState\<close> and \<open>currentTime\<close> are the fields of that context. \<open>sourceNodeRef\<close>
  holds the node object itself: the ref is the only reference the component keeps, so a
  node that is overwritten or set to null moves to \<open>detached\<close>, where it stays part of
  the audio graph (and audible, if it is still playing). \<open>frames\<close> are the pending
  \<open>requestAnimationFrame\<close> requests, each with its handle and the \<open>audioBuffer\<close> that
  the requesting \<open>updateProgress\<close> closure captured. \<open>strictStop\<close> selects a platform
  whose \<open>stop()\<close> throws on a node that has already finished (the condition the
  comment in \<open>stopAudio\<close> names); on every platform \<open>stop()\<close> throws on a node that
  was never started. \<open>script\<close>, \<open>allowScriptEdit\<close> and \<open>isGeneratingAudio\<close> are the
  other props that the handlers and the buttons read.
\<close>

record player =
  audioBuffer :: "AudioBuffer option"
  script :: script_text
  allowScriptEdit :: bool
  isGeneratingAudio :: bool
  isPlaying :: bool
  progress :: real
  isEditing :: bool
  contextCreated :: bool
  contextState :: context_state
  currentTime :: real
  sourceNodeRef :: "source_node option"
  startTimeRef :: real
  pauseTimeRef :: real
  animationFrameRef :: nat
  strictStop :: bool
  detached :: "source_node list"
  frames :: "(nat \<times> AudioBuffer option) list"
  nextFrame :: nat
  pendingPlays :: "AudioBuffer list"

text \<open>
  A handler either returns or throws; in both cases the effects up to that point stay.
  \<open>seq\<close> runs statements in order and stops at the first throw, \<open>whenever\<close> is an
  \<open>if\<close> without \<open>else\<close>, \<open>tryCatch\<close> is \<open>try { ... } catch (e) { ... }\<close>.
\<close>

datatype outcome = Returned player | Threw error player

fun state_of :: "outcome \<Rightarrow> player" where
  "state_of (Returned s) = s"
| "state_of (Threw e s) = s"

definition returns :: "(player \<Rightarrow> player) \<Rightarrow> player \<Rightarrow> outcome" where
  "returns f s = Returned (f s)"

fun seq :: "(player \<Rightarrow> outcome) list \<Rightarrow> player \<Rightarrow> outcome" where
  "seq [] s = Returned s"
| "seq [c] s = c s"
| "seq (c # cs) s = (case c s of Returned s' \<Rightarrow> seq cs s' | Threw e s' \<Rightarrow> Threw e s')"

definition whenever :: "(player \<Rightarrow> bool) \<Rightarrow> (player \<Rightarrow> outcome) \<Rightarrow> player \<Rightarrow> outcome" where
  "whenever p c s = (if p s then c s else Returned s)"

definition tryCatch :: "(player \<Rightarrow> outcome) \<Rightarrow> (error \<Rightarrow> player \<Rightarrow> outcome) \<Rightarrow> player \<Rightarrow> outcome" where
  "tryCatch c h s = (case c s of Returned s' \<Rightarrow> Returned s' | Threw e s' \<Rightarrow> h e s')"

text \<open>
  A node is active (rendering sound) at context time \<open>now\<close> when it has been started,
  has not been stopped and has not yet played its buffer to the end.
\<close>

definition active :: "real \<Rightarrow> source_node \<Rightarrow> bool" where
  "active now n =
     (case playback n of
        Started when offset \<Rightarrow>
          (case buffer n of None \<Rightarrow> False | Some b \<Rightarrow> now < when + (duration b - offset))
      | _ \<Rightarrow> False)"

text \<open>\<open>stop()\<close> and \<open>start(0, offset)\<close> of a source node.\<close>

definition node_stop :: "bool \<Rightarrow> real \<Rightarrow> source_node \<Rightarrow> error + source_node" where
  "node_stop strict now n =
     (case playback n of
        Unscheduled \<Rightarrow> Inl InvalidStateError
      | Started when offset \<Rightarrow>
          if strict \<and> \<not> active now n then Inl InvalidStateError
          else Inr (n\<lparr>playback := Stopped\<rparr>)
      | Stopped \<Rightarrow> if strict then Inl InvalidStateError else Inr n)"

definition node_start :: "real \<Rightarrow> real \<Rightarrow> source_node \<Rightarrow> error + source_node" where
  "node_start now offset n =
     (if offset < 0 then Inl RangeError
      else case playback n of
             Unscheduled \<Rightarrow> Inr (n\<lparr>playback := Started now offset\<rparr>)
           | _ \<Rightarrow> Inl InvalidStateError)"

text \<open>
  \<open>sourceNodeRef.current.stop()\<close>, \<open>sourceNodeRef.current.disconnect()\<close>, and the
  assignment \<open>sourceNodeRef.current = v\<close>, which drops the reference to the old node.
\<close>

definition sourceNode_stop :: "player \<Rightarrow> outcome" where
  "sourceNode_stop s =
     (case sourceNodeRef s of
        None \<Rightarrow> Threw TypeError s
      | Some n \<Rightarrow>
          (case node_stop (strictStop s) (currentTime s) n of
             Inl e \<Rightarrow> Threw e s
           | Inr n' \<Rightarrow> Returned (s\<lparr>sourceNodeRef := Some n'\<rparr>)))"

definition sourceNode_disconnect :: "player \<Rightarrow> outcome" where
  "sourceNode_disconnect s =
     (case sourceNodeRef s of
        None \<Rightarrow> Threw TypeError s
      | Some n \<Rightarrow> Returned (s\<lparr>sourceNodeRef := Some (n\<lparr>connected := False\<rparr>)\<rparr>))"

definition assign_sourceNodeRef :: "source_node option \<Rightarrow> player \<Rightarrow> player" where
  "assign_sourceNodeRef v s =
     (case sourceNodeRef s of
        None \<Rightarrow> s\<lparr>sourceNodeRef := v\<rparr>
      | Some old \<Rightarrow> s\<lparr>sourceNodeRef := v, detached := detached s @ [old]\<rparr>)"

text \<open>Animation frames: handles are positive, 0 in \<open>animationFrameRef\<close> means none.\<close>

definition requestAnimationFrame :: "AudioBuffer option \<Rightarrow> player \<Rightarrow> nat \<times> player" where
  "requestAnimationFrame cb s =
     (nextFrame s, s\<lparr>frames := frames s @ [(nextFrame s, cb)], nextFrame := nextFrame s + 1\<rparr>)"

definition cancelAnimationFrame :: "nat \<Rightarrow> player \<Rightarrow> player" where
  "cancelAnimationFrame h s = s\<lparr>frames := filter (\<lambda>f. fst f \<noteq> h) (frames s)\<rparr>"

text \<open>\<open>stopAudio\<close> (source lines 56 to 70).\<close>

definition stopAudio :: "player \<Rightarrow> outcome" where
  "stopAudio =
     seq [whenever (\<lambda>s. sourceNodeRef s \<noteq> None)
            (seq [tryCatch (seq [sourceNode_stop, sourceNode_disconnect]) (\<lambda>e. returns id),
                  returns (assign_sourceNodeRef None)]),
          whenever (\<lambda>s. animationFrameRef s \<noteq> 0)
            (\<lambda>s. returns (cancelAnimationFrame (animationFrameRef s)) s),
          returns (\<lambda>s. s\<lparr>isPlaying := False\<rparr>)]"

text \<open>
  \<open>updateProgress\<close> (lines 72 to 87). The argument is the \<open>audioBuffer\<close> of the render
  whose closure is running.
\<close>

definition updateProgress :: "AudioBuffer option \<Rightarrow> player \<Rightarrow> outcome" where
  "updateProgress captured s =
     (if \<not> contextCreated s \<or> sourceNodeRef s = None then Returned s
      else case captured of
        None \<Rightarrow> Returned s
      | Some b \<Rightarrow>
          let elapsedTime = currentTime s - startTimeRef s;
              currentProgress = elapsedTime / duration b * 100
          in if currentProgress \<ge> 100
             then seq [returns (\<lambda>s. s\<lparr>progress := 100\<rparr>),
                       stopAudio,
                       returns (\<lambda>s. s\<lparr>pauseTimeRef := 0\<rparr>)] s
             else seq [returns (\<lambda>s. s\<lparr>progress := currentProgress\<rparr>),
                       returns (\<lambda>s. case requestAnimationFrame captured s of
                                        (h, s') \<Rightarrow> s'\<lparr>animationFrameRef := h\<rparr>)] s)"

text \<open>
  \<open>playAudio\<close> (lines 89 to 115) is an async function. \<open>playAudio\<close> below is the part
  that runs synchronously in the click handler: if the context is suspended it calls
  \<open>resume()\<close> and waits, with the buffer it captured; otherwise it runs on.
  \<open>playAudio_resumed\<close> is the part after the \<open>await\<close>. \<open>contextResumed\<close> is the moment
  the context starts running: the waiting continuations run one after the other, and a
  rejection of one of them (an unhandled promise rejection) does not stop the others.
\<close>

definition playAudio_resumed :: "AudioBuffer \<Rightarrow> player \<Rightarrow> outcome" where
  "playAudio_resumed b =
     seq [whenever (\<lambda>s. sourceNodeRef s \<noteq> None) sourceNode_stop,
          (\<lambda>s. let source = \<lparr>buffer = Some b, connected = True, playback = Unscheduled\<rparr>;
                    offset = pauseTimeRef s;
                    s1 = s\<lparr>startTimeRef := currentTime s - offset\<rparr>
                in case node_start (currentTime s1) offset source of
                     Inl e \<Rightarrow> Threw e (s1\<lparr>detached := detached s1 @ [source]\<rparr>)
                   | Inr source' \<Rightarrow> Returned (assign_sourceNodeRef (Some source') s1)),
          returns (\<lambda>s. s\<lparr>isPlaying := True\<rparr>),
          updateProgress (Some b)]"

definition playAudio :: "player \<Rightarrow> outcome" where
  "playAudio s =
     (case audioBuffer s of
        None \<Rightarrow> Returned s
      | Some b \<Rightarrow>
          if \<not> contextCreated s then Returned s
          else if contextState s = Suspended
               then Returned (s\<lparr>pendingPlays := pendingPlays s @ [b]\<rparr>)
               else playAudio_resumed b s)"

definition contextResumed :: "player \<Rightarrow> player" where
  "contextResumed s =
     fold (\<lambda>b s'. state_of (playAudio_resumed b s')) (pendingPlays s)
          (s\<lparr>contextState := Running, pendingPlays := []\<rparr>)"

text \<open>\<open>pauseAudio\<close> (lines 117 to 129) and \<open>resetAudio\<close> (lines 131 to 135).\<close>

definition pauseAudio :: "player \<Rightarrow> outcome" where
  "pauseAudio s =
     (if \<not> contextCreated s then Returned s
      else let elapsed = currentTime s - startTimeRef s
           in seq [returns (\<lambda>s. s\<lparr>pauseTimeRef := elapsed\<rparr>),
                   stopAudio,
                   (\<lambda>s. case audioBuffer s of
                           None \<Rightarrow> Returned s
                         | Some b \<Rightarrow> Returned (s\<lparr>progress := elapsed / duration b * 100\<rparr>))] s)"

definition resetAudio :: "player \<Rightarrow> outcome" where
  "resetAudio =
     seq [stopAudio,
          returns (\<lambda>s. s\<lparr>pauseTimeRef := 0\<rparr>),
          returns (\<lambda>s. s\<lparr>progress := 0\<rparr>)]"

text \<open>
  The effect on \<open>[audioBuffer, script, allowScriptEdit]\<close> (lines 48 to 54), which enters
  edit mode when there is a script and no sample, and leaves it when there is a sample.
\<close>

definition editModeEffect :: "player \<Rightarrow> player" where
  "editModeEffect s =
     (if audioBuffer s = None \<and> script s \<noteq> EmptyScript \<and> allowScriptEdit s
      then s\<lparr>isEditing := True\<rparr>
      else if audioBuffer s \<noteq> None then s\<lparr>isEditing := False\<rparr>
      else s)"

text \<open>
  A new value of the prop \<open>audioBuffer\<close>. The component is first rendered with the new
  prop (\<open>receiveSample\<close>: from here on the render reads the new sample, its duration is
  the one displayed); after the render the effects whose dependencies changed run in the
  order of their declaration, the one on edit mode and then the one on \<open>[audioBuffer]\<close>
  (lines 138 to 140), which calls \<open>resetAudio\<close>. On mount the context is created (lines
  38 to 45, with the run state the platform gives it; its clock is the \<open>currentTime\<close> of
  the state, which is 0 until then) and the same two effects run once.
\<close>

definition receiveSample :: "AudioBuffer option \<Rightarrow> player \<Rightarrow> player" where
  "receiveSample newBuffer s = s\<lparr>audioBuffer := newBuffer\<rparr>"

definition sampleReplaced :: "AudioBuffer option \<Rightarrow> player \<Rightarrow> outcome" where
  "sampleReplaced newBuffer =
     seq [returns (receiveSample newBuffer), returns editModeEffect, resetAudio]"

definition mount :: "context_state \<Rightarrow> player \<Rightarrow> outcome" where
  "mount initialState s =
     (if contextCreated s then Returned s
      else seq [returns (\<lambda>s. s\<lparr>contextCreated := True, contextState := initialState\<rparr>),
                returns editModeEffect,
                resetAudio] s)"

text \<open>
  New values of the other props. A new \<open>script\<close> (a different string) and a new
  \<open>allowScriptEdit\<close> (a different boolean) run the effect on edit mode.
\<close>

definition scriptChanged :: "script_text \<Rightarrow> player \<Rightarrow> player" where
  "scriptChanged newScript s = editModeEffect (s\<lparr>script := newScript\<rparr>)"

definition allowScriptEditChanged :: "bool \<Rightarrow> player \<Rightarrow> player" where
  "allowScriptEditChanged allow s =
     (if allowScriptEdit s = allow then s else editModeEffect (s\<lparr>allowScriptEdit := allow\<rparr>))"

definition generatingAudioChanged :: "bool \<Rightarrow> player \<Rightarrow> player" where
  "generatingAudioChanged generating s = s\<lparr>isGeneratingAudio := generating\<rparr>"

text \<open>
  The buttons. A click reaches the handler only if the button is rendered and not
  disabled. The play/pause button (lines 273 to 275) has
  \<open>onClick={isPlaying ? pauseAudio : playAudio}\<close> and \<open>disabled={!audioBuffer || isEditing}\<close>;
  the reset button (lines 266 and 267) has \<open>onClick={resetAudio}\<close> and the same
  \<open>disabled\<close>. The Edit button (lines 151 to 161) is rendered when
  \<open>audioBuffer && !isEditing\<close> and calls \<open>setIsEditing(true)\<close>, then \<open>stopAudio\<close>. The
  Confirm button (lines 181 to 187) is rendered when \<open>isEditing\<close>, has
  \<open>disabled={isGeneratingAudio || !script.trim()}\<close> and calls \<open>setIsEditing(false)\<close>, then
  the callback \<open>onConfirmScript\<close> of the parent component, which is outside the component.
\<close>

definition togglePlayback :: "player \<Rightarrow> outcome" where
  "togglePlayback s =
     (if audioBuffer s = None \<or> isEditing s then Returned s
      else if isPlaying s then pauseAudio s else playAudio s)"

definition resetClicked :: "player \<Rightarrow> outcome" where
  "resetClicked s = (if audioBuffer s = None \<or> isEditing s then Returned s else resetAudio s)"

definition editClicked :: "player \<Rightarrow> outcome" where
  "editClicked s =
     (if audioBuffer s \<noteq> None \<and> \<not> isEditing s
      then seq [returns (\<lambda>s. s\<lparr>isEditing := True\<rparr>), stopAudio] s
      else Returned s)"

definition confirmClicked :: "player \<Rightarrow> outcome" where
  "confirmClicked s =
     (if isEditing s \<and> \<not> (isGeneratingAudio s \<or> script s \<noteq> TextScript)
      then Returned (s\<lparr>isEditing := False\<rparr>)
      else Returned s)"

text \<open>
  The browser runs the callback of a pending animation frame (the request leaves the
  pending list, then the captured \<open>updateProgress\<close> runs), and context time passes
  (only forwards, and only while the context is running).
\<close>

definition animationFrameFired :: "nat \<Rightarrow> player \<Rightarrow> outcome" where
  "animationFrameFired h s =
     (case map_of (frames s) h of
        None \<Rightarrow> Returned s
      | Some captured \<Rightarrow>
          seq [returns (cancelAnimationFrame h), updateProgress captured] s)"

definition elapse :: "real \<Rightarrow> player \<Rightarrow> player" where
  "elapse d s =
     (if contextCreated s \<and> contextState s = Running \<and> 0 \<le> d
      then s\<lparr>currentTime := currentTime s + d\<rparr> else s)"

text \<open>What can happen to a mounted component, and a run of such events.\<close>

datatype event =
    Mount context_state
  | PlayAudio
  | PauseAudio
  | ResetAudio
  | StopAudio
  | TogglePlayback
  | ResetClicked
  | EditClicked
  | ConfirmClicked
  | SampleReplaced "AudioBuffer option"
  | ScriptChanged script_text
  | AllowScriptEditChanged bool
  | GeneratingAudioChanged bool
  | ContextResumed
  | AnimationFrame nat
  | Elapse real

fun step :: "event \<Rightarrow> player \<Rightarrow> player" where
  "step (Mount c) s = state_of (mount c s)"
| "step PlayAudio s = state_of (playAudio s)"
| "step PauseAudio s = state_of (pauseAudio s)"
| "step ResetAudio s = state_of (resetAudio s)"
| "step StopAudio s = state_of (stopAudio s)"
| "step TogglePlayback s = state_of (togglePlayback s)"
| "step ResetClicked s = state_of (resetClicked s)"
| "step EditClicked s = state_of (editClicked s)"
| "step ConfirmClicked s = state_of (confirmClicked s)"
| "step (SampleReplaced b) s = state_of (sampleReplaced b s)"
| "step (ScriptChanged c) s = scriptChanged c s"
| "step (AllowScriptEditChanged a) s = allowScriptEditChanged a s"
| "step (GeneratingAudioChanged g) s = generatingAudioChanged g s"
| "step ContextResumed s = contextResumed s"
| "step (AnimationFrame h) s = state_of (animationFrameFired h s)"
| "step (Elapse d) s = elapse d s"

fun run :: "event list \<Rightarrow> player \<Rightarrow> player" where
  "run [] s = s"
| "run (e # es) s = run es (step e s)"

definition initial :: "bool \<Rightarrow> player" where
  "initial strict =
     \<lparr>audioBuffer = None, script = EmptyScript, allowScriptEdit = False,
      isGeneratingAudio = False, isPlaying = False, progress = 0, isEditing = False,
      contextCreated = False, contextState = Suspended, currentTime = 0,
      sourceNodeRef = None, startTimeRef = 0, pauseTimeRef = 0, animationFrameRef = 0,
      strictStop = strict, detached = [], frames = [], nextFrame = 1, pendingPlays = []\<rparr>"

text \<open>All source nodes created so far, and those of them that are active now.\<close>

definition engines :: "player \<Rightarrow> source_node list" where
  "engines s = (case sourceNodeRef s of None \<Rightarrow> [] | Some n \<Rightarrow> [n]) @ detached s"

definition active_engines :: "player \<Rightarrow> source_node list" where
  "active_engines s = filter (active (currentTime s)) (engines s)"

definition progressFraction :: "player \<Rightarrow> real" where
  "progressFraction s = progress s / 100"

text \<open>
  What the component renders above the progress bar (lines 250 to 254): on the left
  \<open>formatTime(pauseTimeRef.current)\<close>, on the right the formatted duration of the
  buffer, or \<open>00:00\<close> without one. The bar itself has the width \<open>progress\<close> percent.
\<close>

definition timeLabel :: "player \<Rightarrow> string" where
  "timeLabel s = formatTime (pauseTimeRef s)"

definition durationLabel :: "player \<Rightarrow> string" where
  "durationLabel s = (case audioBuffer s of None \<Rightarrow> ''00:00'' | Some b \<Rightarrow> formatTime (duration b))"

section \<open>Observers used in the statements\<close>

text \<open>
  \<open>torn_down before after\<close>: the engine is released, \<open>isPlaying\<close> is cleared, the frame
  whose handle was in \<open>animationFrameRef\<close> is no longer pending and no frame was added.
  \<open>started_at offset b before after\<close>: an engine for \<open>b\<close> was started at the context time
  of \<open>before\<close> at \<open>offset\<close>, with \<open>startTimeRef = now - offset\<close>.
\<close>

definition torn_down :: "player \<Rightarrow> player \<Rightarrow> bool" where
  "torn_down before after \<longleftrightarrow>
     sourceNodeRef after = None \<and> \<not> isPlaying after
     \<and> (animationFrameRef before \<noteq> 0 \<longrightarrow> animationFrameRef before \<notin> fst ` set (frames after))
     \<and> set (frames after) \<subseteq> set (frames before)"

definition started_at :: "real \<Rightarrow> AudioBuffer \<Rightarrow> player \<Rightarrow> player \<Rightarrow> bool" where
  "started_at offset b before after \<longleftrightarrow>
     sourceNodeRef after = Some \<lparr>buffer = Some b, connected = True,
                                 playback = Started (currentTime before) offset\<rparr>
     \<and> startTimeRef after = currentTime before - offset
     \<and> currentTime after = currentTime before
     \<and> pauseTimeRef after = pauseTimeRef before
     \<and> isPlaying after"

text \<open>
  Waiting: a list of events in which only context time passes (forwards) and animation
  frames fire, and the time that passes in it.
\<close>

fun waiting :: "event list \<Rightarrow> bool" where
  "waiting [] = True"
| "waiting (Elapse d # es) = (0 \<le> d \<and> waiting es)"
| "waiting (AnimationFrame h # es) = waiting es"
| "waiting (e # es) = False"

fun elapsed_of :: "event list \<Rightarrow> real" where
  "elapsed_of [] = 0"
| "elapsed_of (Elapse d # es) = d + elapsed_of es"
| "elapsed_of (e # es) = elapsed_of es"

text \<open>
  A session paused (or fresh) on sample \<open>b\<close>, and one playing it; in both every
  pending frame belongs to a loop that captured \<open>b\<close>.
\<close>

definition paused_with :: "AudioBuffer \<Rightarrow> player \<Rightarrow> bool" where
  "paused_with b s \<longleftrightarrow>
     contextCreated s \<and> contextState s = Running \<and> audioBuffer s = Some b
     \<and> sourceNodeRef s = None \<and> 0 \<le> pauseTimeRef s
     \<and> (\<forall>f \<in> set (frames s). snd f = Some b)"

definition playing_with :: "AudioBuffer \<Rightarrow> player \<Rightarrow> bool" where
  "playing_with b s \<longleftrightarrow>
     contextCreated s \<and> contextState s = Running \<and> audioBuffer s = Some b
     \<and> sourceNodeRef s \<noteq> None
     \<and> (\<forall>f \<in> set (frames s). snd f = Some b)"

text \<open>
  Two invariants of the reachable states: no node that the component has dropped is
  active, and \<open>startTimeRef\<close> is not in the future while \<open>pauseTimeRef\<close> is not negative.
\<close>

definition detached_silent :: "player \<Rightarrow> bool" where
  "detached_silent s \<longleftrightarrow> (\<forall>n \<in> set (detached s). \<not> active (currentTime s) n)"

definition timing_ok :: "player \<Rightarrow> bool" where
  "timing_ok s \<longleftrightarrow> startTimeRef s \<le> currentTime s \<and> 0 \<le> pauseTimeRef s"

section \<open>Decimal digits and the fields of a formatted time\<close>

lemma digit_value_digit_char: "d < 10 \<Longrightarrow> digit_value (digit_char d) = d"
proof -
  assume "d < 10"
  then have "d \<in> {0,1,2,3,4,5,6,7,8,9}" by auto
  then show ?thesis by (auto simp: digit_value_def digit_char_def)
qed

lemma is_digit_digit_char: "d < 10 \<Longrightarrow> is_digit (digit_char d)"
proof -
  assume "d < 10"
  then have "d \<in> {0,1,2,3,4,5,6,7,8,9}" by auto
  then show ?thesis by (auto simp: is_digit_def digit_char_def)
qed

lemma decimal_value_snoc: "decimal_value (xs @ [c]) = 10 * decimal_value xs + digit_value c"
  by (simp add: decimal_value_def)

lemma decimal_value_nat_toString: "decimal_value (nat_toString n) = n"
proof (induction n rule: nat_toString.induct)
  case (1 n)
  show ?case
  proof (cases "n < 10")
    case True
    then show ?thesis
      by (simp add: nat_toString.simps[of n] decimal_value_def digit_value_digit_char)
  next
    case False
    with 1 have "decimal_value (nat_toString (n div 10)) = n div 10" by simp
    with False show ?thesis
      by (simp add: nat_toString.simps[of n] decimal_value_snoc digit_value_digit_char)
  qed
qed

lemma digits_nat_toString: "\<forall>c \<in> set (nat_toString n). is_digit c"
proof (induction n rule: nat_toString.induct)
  case (1 n)
  show ?case
  proof (cases "n < 10")
    case True
    then show ?thesis by (simp add: nat_toString.simps[of n] is_digit_digit_char)
  next
    case False
    with 1 have "\<forall>c \<in> set (nat_toString (n div 10)). is_digit c" by simp
    with False show ?thesis
      by (simp add: nat_toString.simps[of n] is_digit_digit_char)
  qed
qed


lemma decimal_value_zeros: "decimal_value (replicate k CHR ''0'' @ str) = decimal_value str"
proof -
  have "foldl (\<lambda>acc c. 10 * acc + digit_value c) 0 (replicate k CHR ''0'') = 0"
    by (induction k) (simp_all add: digit_value_def)
  then show ?thesis by (simp add: decimal_value_def)
qed


lemma floor_js_rem_60:
  assumes "0 \<le> s"
  shows "\<lfloor>js_rem s 60\<rfloor> = \<lfloor>s\<rfloor> mod 60"
proof -
  have q: "\<lfloor>s / 60\<rfloor> = \<lfloor>s\<rfloor> div 60"
    using floor_divide_real_eq_div[of 60 s] by simp
  from assms have "js_rem s 60 = s - of_int (60 * \<lfloor>s / 60\<rfloor>)"
    by (simp add: js_rem_def)
  then have "\<lfloor>js_rem s 60\<rfloor> = \<lfloor>s\<rfloor> - 60 * \<lfloor>s / 60\<rfloor>"
    by (simp only: floor_diff_of_int)
  with q show ?thesis
    by (simp add: minus_mult_div_eq_mod)
qed


lemma is_digit_not_colon: "is_digit c \<Longrightarrow> c \<noteq> CHR '':''"
  by (auto simp: is_digit_def)

lemma digits_padStart:
  "\<forall>c \<in> set (padStart k CHR ''0'' (nat_toString n)). is_digit c"
proof -
  have z: "is_digit CHR ''0''" by (simp add: is_digit_def)
  show ?thesis
    using digits_nat_toString[of n] z by (auto simp: padStart_def)
qed

lemma decimal_value_padStart:
  "decimal_value (padStart k CHR ''0'' (nat_toString n)) = n"
  by (simp add: padStart_def decimal_value_zeros decimal_value_nat_toString)




lemma minutes_field_split:
  "\<forall>c \<in> set m. is_digit c \<Longrightarrow> minutes_field (m @ CHR '':'' # r) = m"
  by (simp add: minutes_field_def takeWhile_append2 is_digit_not_colon takeWhile_append1)

lemma seconds_field_split:
  "\<forall>c \<in> set m. is_digit c \<Longrightarrow> seconds_field (m @ CHR '':'' # r) = r"
  by (simp add: seconds_field_def dropWhile_append2 is_digit_not_colon)

lemma formatTime_nonneg:
  assumes "0 \<le> s" and "s < 60 * 2 ^ 50"
  shows "formatTime s = padStart 2 CHR ''0'' (nat_toString (nat \<lfloor>s / 60\<rfloor>)) @ CHR '':'' #
           padStart 2 CHR ''0'' (nat_toString (nat (\<lfloor>s\<rfloor> mod 60)))"
proof -
  from assms(2) have q: "s / 60 < 2 ^ 50" by simp
  then have d: "js_div_60 s = s / 60" by (simp add: js_div_60_def)
  from q have "\<lfloor>s / 60\<rfloor> < 2 ^ 50" by (simp add: floor_less_iff)
  then have "\<lfloor>s / 60\<rfloor> < 2 ^ 53" by simp
  moreover from assms(1) have "0 \<le> \<lfloor>s / 60\<rfloor>" by simp
  ultimately have "nat \<lfloor>s / 60\<rfloor> < 2 ^ 53" by (simp add: nat_less_iff)
  then have m: "nonneg_toString (nat \<lfloor>s / 60\<rfloor>) = nat_toString (nat \<lfloor>s / 60\<rfloor>)"
    by (simp add: nonneg_toString_def)
  have "nat (\<lfloor>s\<rfloor> mod 60) < 60" by simp
  then have "nat (\<lfloor>s\<rfloor> mod 60) < 2 ^ 53" by simp
  then have r: "nonneg_toString (nat (\<lfloor>s\<rfloor> mod 60)) = nat_toString (nat (\<lfloor>s\<rfloor> mod 60))"
    by (simp only: nonneg_toString_def if_True)
  from assms(1) have n1: "\<not> \<lfloor>s / 60\<rfloor> < 0" by (simp add: not_less)
  have n2: "\<not> \<lfloor>s\<rfloor> mod 60 < 0" by (simp add: not_less)
  have "formatTime s =
          padStart 2 CHR ''0'' (number_toString \<lfloor>s / 60\<rfloor>) @ '':'' @
          padStart 2 CHR ''0'' (number_toString (\<lfloor>s\<rfloor> mod 60))"
    unfolding formatTime_def Let_def d floor_js_rem_60[OF assms(1)] ..
  also have "number_toString \<lfloor>s / 60\<rfloor> = nat_toString (nat \<lfloor>s / 60\<rfloor>)"
    using n1 m by (simp only: number_toString_def if_False)
  also have "number_toString (\<lfloor>s\<rfloor> mod 60) = nat_toString (nat (\<lfloor>s\<rfloor> mod 60))"
    using n2 r by (simp only: number_toString_def if_False)
  finally show ?thesis by simp
qed

lemma minutes_field_formatTime:
  "0 \<le> s \<Longrightarrow> s < 60 * 2 ^ 50 \<Longrightarrow>
   minutes_field (formatTime s) = padStart 2 CHR ''0'' (nat_toString (nat \<lfloor>s / 60\<rfloor>))"
  by (simp only: formatTime_nonneg minutes_field_split[OF digits_padStart])

lemma seconds_field_formatTime:
  "0 \<le> s \<Longrightarrow> s < 60 * 2 ^ 50 \<Longrightarrow>
   seconds_field (formatTime s) = padStart 2 CHR ''0'' (nat_toString (nat (\<lfloor>s\<rfloor> mod 60)))"
  by (simp only: formatTime_nonneg seconds_field_split[OF digits_padStart])

lemmas small_time_defs =
  js_div_60_def js_rem_def number_toString_def nonneg_toString_def padStart_def
  nat_toString.simps digit_char_def

lemmas large_time_defs =
  js_div_60_def js_rem_def round_double_def ulp_of_def ulp_for_def
  round_half_even_def number_toString_def nonneg_toString_def large_toString_def
  large_with_digits_def render_found_def render_digits_def mantissa_def
  nat_to_double_def round_at_def fits_def candidates_near_def digit_candidates_def
  closest_candidate_def nearer_def padStart_def digit_char_def
  nat_toString.simps bit_length.simps shortest_digits.simps

text \<open>
  Three large arguments, each of them a double. At \<open>60 * 2^50 + 56\<close> the quotient
  \<open>2^50 + 14/15\<close> is rounded to \<open>2^50 + 1\<close> before the floor. At \<open>60 * 2^57\<close> the quotient
  \<open>2^57 = 144115188075855872\<close> is exact and is printed with the 17 digits that identify
  it. At \<open>6 * 10^22\<close> the quotient \<open>10^21\<close> is printed in exponent notation.
\<close>

lemma formatTime_rounds_up_at_2_50:
  "formatTime (60 * 2 ^ 50 + 56) = ''1125899906842625:56''
   \<and> \<lfloor>(60 * 2 ^ 50 + 56 :: real) / 60\<rfloor> = 1125899906842624"
proof -
  have "formatTime (60 * 2 ^ 50 + 56) = ''1125899906842625:56''"
    unfolding formatTime_def Let_def by (simp add: large_time_defs)
  moreover have "\<lfloor>(60 * 2 ^ 50 + 56 :: real) / 60\<rfloor> = 1125899906842624"
    by simp
  ultimately show ?thesis by (rule conjI)
qed

lemma formatTime_at_60_2_57: "formatTime (60 * 2 ^ 57) = ''144115188075855870:00''"
  unfolding formatTime_def Let_def by (simp add: large_time_defs)


text \<open>
  Claim C9, as stated for every nonnegative number of seconds, fails: at
  \<open>s = 60 * 2^57\<close> the minutes field displays 144115188075855870, and \<open>floor (s / 60)\<close>
  is 144115188075855872.
\<close>

theorem formatTime_minutes_not_floor_at_60_2_57:
  "(0::real) \<le> 60 * 2 ^ 57
   \<and> formatTime (60 * 2 ^ 57) = ''144115188075855870:00''
   \<and> decimal_value (minutes_field (formatTime (60 * 2 ^ 57))) = 144115188075855870
   \<and> nat \<lfloor>(60 * 2 ^ 57 :: real) / 60\<rfloor> = 144115188075855872"
  by (simp only: formatTime_at_60_2_57)
     (simp add: minutes_field_def decimal_value_def digit_value_def)

text \<open>
  Claim C9, amended. For a number of seconds \<open>s\<close> with \<open>0 \<le> s < 60 * 2^50\<close>,
  \<open>formatTime\<close> truncates: the minutes field displays \<open>floor (s / 60)\<close>, the seconds
  field displays \<open>floor (s mod 60)\<close>, so that the displayed time is the whole number of
  seconds \<open>floor s\<close> and never a rounded-up value; 59.9 seconds is shown as 00:59.
\<close>

theorem formatTime_floors_seconds:
  assumes "0 \<le> s" and "s < 60 * 2 ^ 50"
  shows "decimal_value (minutes_field (formatTime s)) = nat \<lfloor>s / 60\<rfloor>
       \<and> decimal_value (seconds_field (formatTime s)) = nat \<lfloor>s - 60 * of_int \<lfloor>s / 60\<rfloor>\<rfloor>
       \<and> int (60 * decimal_value (minutes_field (formatTime s))
                + decimal_value (seconds_field (formatTime s))) = \<lfloor>s\<rfloor>
       \<and> formatTime (599 / 10) = ''00:59''"
proof -
  have q: "\<lfloor>s / 60\<rfloor> = \<lfloor>s\<rfloor> div 60"
    using floor_divide_real_eq_div[of 60 s] by simp
  have r: "\<lfloor>s - 60 * of_int \<lfloor>s / 60\<rfloor>\<rfloor> = \<lfloor>s\<rfloor> mod 60"
    using floor_js_rem_60[OF assms(1)] assms(1) by (simp add: js_rem_def)
  have m: "decimal_value (minutes_field (formatTime s)) = nat (\<lfloor>s\<rfloor> div 60)"
    using assms by (simp add: minutes_field_formatTime decimal_value_padStart q)
  have e: "decimal_value (seconds_field (formatTime s)) = nat (\<lfloor>s\<rfloor> mod 60)"
    using assms by (simp add: seconds_field_formatTime decimal_value_padStart)
  from assms(1) have nn: "0 \<le> \<lfloor>s\<rfloor>" by simp
  then have d: "0 \<le> \<lfloor>s\<rfloor> div 60" by (simp add: pos_imp_zdiv_nonneg_iff)
  have t: "int (60 * nat (\<lfloor>s\<rfloor> div 60) + nat (\<lfloor>s\<rfloor> mod 60)) = \<lfloor>s\<rfloor>"
    using d by simp
  have x: "formatTime (599 / 10) = ''00:59''"
    unfolding formatTime_def Let_def by (simp add: small_time_defs)
  have c1: "decimal_value (minutes_field (formatTime s)) = nat \<lfloor>s / 60\<rfloor>"
    using m by (simp only: q)
  have c2: "decimal_value (seconds_field (formatTime s)) = nat \<lfloor>s - 60 * of_int \<lfloor>s / 60\<rfloor>\<rfloor>"
    using e by (simp only: r)
  have c3: "int (60 * decimal_value (minutes_field (formatTime s))
                + decimal_value (seconds_field (formatTime s))) = \<lfloor>s\<rfloor>"
    using t by (simp only: m e)
  show ?thesis by (intro conjI; fact c1 c2 c3 x)
qed

theorem formatTime_floors_seconds_witness:
  "(0::real) \<le> 599 / 10 \<and> (599 / 10 :: real) < 60 * 2 ^ 50
   \<and> decimal_value (minutes_field (formatTime (599 / 10))) = 0
   \<and> decimal_value (seconds_field (formatTime (599 / 10))) = 59
   \<and> formatTime (599 / 10) = ''00:59''"
  using formatTime_floors_seconds[of "599 / 10"]
  by (simp add: minutes_field_def seconds_field_def decimal_value_def digit_value_def)




section \<open>Equations for the transport operations\<close>

lemma outcome_case_id [simp]:
  "(case r of Returned x \<Rightarrow> Returned x | Threw e x \<Rightarrow> Threw e x) = r"
  by (cases r) simp_all

lemma stopAudio_eq:
  "stopAudio s = Returned
     (s\<lparr>sourceNodeRef := None,
        detached := detached s @
          (case sourceNodeRef s of
             None \<Rightarrow> []
           | Some n \<Rightarrow> [case node_stop (strictStop s) (currentTime s) n of
                          Inl e \<Rightarrow> n
                        | Inr n' \<Rightarrow> n'\<lparr>connected := False\<rparr>]),
        frames := (if animationFrameRef s \<noteq> 0
                   then filter (\<lambda>f. fst f \<noteq> animationFrameRef s) (frames s)
                   else frames s),
        isPlaying := False\<rparr>)"
proof (cases "sourceNodeRef s")
  case None
  then show ?thesis
    by (simp add: stopAudio_def whenever_def returns_def cancelAnimationFrame_def)
next
  case (Some n)
  show ?thesis
  proof (cases "node_stop (strictStop s) (currentTime s) n")
    case (Inl e)
    with Some show ?thesis
      by (simp add: stopAudio_def whenever_def returns_def tryCatch_def sourceNode_stop_def
          assign_sourceNodeRef_def cancelAnimationFrame_def)
  next
    case (Inr n')
    with Some show ?thesis
      by (simp add: stopAudio_def whenever_def returns_def tryCatch_def sourceNode_stop_def
          sourceNode_disconnect_def assign_sourceNodeRef_def cancelAnimationFrame_def)
  qed
qed


lemma stopAudio_fields:
  "sourceNodeRef (state_of (stopAudio s)) = None"
  "isPlaying (state_of (stopAudio s)) = False"
  "audioBuffer (state_of (stopAudio s)) = audioBuffer s"
  "progress (state_of (stopAudio s)) = progress s"
  "contextCreated (state_of (stopAudio s)) = contextCreated s"
  "contextState (state_of (stopAudio s)) = contextState s"
  "currentTime (state_of (stopAudio s)) = currentTime s"
  "startTimeRef (state_of (stopAudio s)) = startTimeRef s"
  "pauseTimeRef (state_of (stopAudio s)) = pauseTimeRef s"
  "animationFrameRef (state_of (stopAudio s)) = animationFrameRef s"
  "strictStop (state_of (stopAudio s)) = strictStop s"
  "nextFrame (state_of (stopAudio s)) = nextFrame s"
  "pendingPlays (state_of (stopAudio s)) = pendingPlays s"
  "isEditing (state_of (stopAudio s)) = isEditing s"
  "script (state_of (stopAudio s)) = script s"
  "allowScriptEdit (state_of (stopAudio s)) = allowScriptEdit s"
  "isGeneratingAudio (state_of (stopAudio s)) = isGeneratingAudio s"
  by (simp_all add: stopAudio_eq)

lemma stopAudio_frames:
  "frames (state_of (stopAudio s)) =
     (if animationFrameRef s \<noteq> 0
      then filter (\<lambda>f. fst f \<noteq> animationFrameRef s) (frames s) else frames s)"
  by (simp add: stopAudio_eq)

lemma stopAudio_returns: "stopAudio s = Returned (state_of (stopAudio s))"
  by (simp add: stopAudio_eq)

lemma stopAudio_torn_down: "torn_down s (state_of (stopAudio s))"
  by (auto simp: torn_down_def stopAudio_fields stopAudio_frames)


lemma pauseAudio_eq:
  "contextCreated s \<Longrightarrow>
   pauseAudio s = Returned
     (let elapsed = currentTime s - startTimeRef s;
          s' = state_of (stopAudio (s\<lparr>pauseTimeRef := elapsed\<rparr>))
      in case audioBuffer s of
           None \<Rightarrow> s'
         | Some b \<Rightarrow> s'\<lparr>progress := elapsed / duration b * 100\<rparr>)"
  by (simp add: pauseAudio_def returns_def stopAudio_eq Let_def split: option.splits)

lemma resetAudio_eq:
  "resetAudio s = Returned ((state_of (stopAudio s))\<lparr>pauseTimeRef := 0, progress := 0\<rparr>)"
  by (simp add: resetAudio_def returns_def stopAudio_eq)

lemma editModeEffect_eq:
  "editModeEffect s =
     s\<lparr>isEditing := (if audioBuffer s = None
                      then (script s \<noteq> EmptyScript \<and> allowScriptEdit s) \<or> isEditing s
                      else False)\<rparr>"
  by (simp add: editModeEffect_def)

lemma editModeEffect_fields:
  "audioBuffer (editModeEffect s) = audioBuffer s"
  "isPlaying (editModeEffect s) = isPlaying s"
  "progress (editModeEffect s) = progress s"
  "contextCreated (editModeEffect s) = contextCreated s"
  "contextState (editModeEffect s) = contextState s"
  "currentTime (editModeEffect s) = currentTime s"
  "sourceNodeRef (editModeEffect s) = sourceNodeRef s"
  "startTimeRef (editModeEffect s) = startTimeRef s"
  "pauseTimeRef (editModeEffect s) = pauseTimeRef s"
  "animationFrameRef (editModeEffect s) = animationFrameRef s"
  "strictStop (editModeEffect s) = strictStop s"
  "detached (editModeEffect s) = detached s"
  "frames (editModeEffect s) = frames s"
  "nextFrame (editModeEffect s) = nextFrame s"
  "pendingPlays (editModeEffect s) = pendingPlays s"
  by (simp_all add: editModeEffect_def)

lemma sampleReplaced_eq:
  "sampleReplaced nb s =
     Returned ((state_of (stopAudio (editModeEffect (receiveSample nb s))))
                 \<lparr>pauseTimeRef := 0, progress := 0\<rparr>)"
  by (simp add: sampleReplaced_def returns_def resetAudio_eq)

lemma sampleReplaced_resetAudio:
  "sampleReplaced nb s = resetAudio (editModeEffect (receiveSample nb s))"
  by (simp add: sampleReplaced_def returns_def)

lemma mount_eq:
  "mount c s =
     (if contextCreated s then Returned s
      else resetAudio (editModeEffect (s\<lparr>contextCreated := True, contextState := c\<rparr>)))"
  by (simp add: mount_def returns_def)

lemma editClicked_eq:
  "editClicked s =
     (if audioBuffer s \<noteq> None \<and> \<not> isEditing s
      then stopAudio (s\<lparr>isEditing := True\<rparr>) else Returned s)"
  by (simp add: editClicked_def returns_def)

lemma updateProgress_inert:
  "\<not> contextCreated s \<or> sourceNodeRef s = None \<or> captured = None \<Longrightarrow>
   updateProgress captured s = Returned s"
  by (auto simp: updateProgress_def)

lemma updateProgress_complete:
  assumes "contextCreated s" and "sourceNodeRef s \<noteq> None" and "0 < duration b"
    and "duration b \<le> currentTime s - startTimeRef s"
  shows "updateProgress (Some b) s =
           Returned ((state_of (stopAudio (s\<lparr>progress := 100\<rparr>)))\<lparr>pauseTimeRef := 0\<rparr>)"
proof -
  from assms(3,4) have "100 \<le> (currentTime s - startTimeRef s) / duration b * 100"
    by (simp add: pos_le_divide_eq)
  with assms(1,2) show ?thesis
    by (auto simp: updateProgress_def returns_def stopAudio_eq Let_def)
qed

lemma updateProgress_tick:
  assumes "contextCreated s" and "sourceNodeRef s \<noteq> None" and "0 < duration b"
    and "currentTime s - startTimeRef s < duration b"
  shows "updateProgress (Some b) s =
           Returned (s\<lparr>progress := (currentTime s - startTimeRef s) / duration b * 100,
                       frames := frames s @ [(nextFrame s, Some b)],
                       nextFrame := nextFrame s + 1,
                       animationFrameRef := nextFrame s\<rparr>)"
proof -
  from assms(3,4) have "\<not> 100 \<le> (currentTime s - startTimeRef s) / duration b * 100"
    by (simp add: pos_le_divide_eq not_le)
  with assms(1,2) show ?thesis
    by (auto simp: updateProgress_def returns_def requestAnimationFrame_def Let_def)
qed

lemma playAudio_resumed_fresh:
  assumes "contextCreated s" and "sourceNodeRef s = None" and "0 < duration b"
    and "0 \<le> pauseTimeRef s" and "pauseTimeRef s < duration b"
  shows "playAudio_resumed b s =
           Returned (s\<lparr>startTimeRef := currentTime s - pauseTimeRef s,
                       sourceNodeRef := Some \<lparr>buffer = Some b, connected = True,
                                              playback = Started (currentTime s) (pauseTimeRef s)\<rparr>,
                       isPlaying := True,
                       progress := pauseTimeRef s / duration b * 100,
                       frames := frames s @ [(nextFrame s, Some b)],
                       nextFrame := nextFrame s + 1,
                       animationFrameRef := nextFrame s\<rparr>)"
proof -
  let ?s2 = "s\<lparr>startTimeRef := currentTime s - pauseTimeRef s,
                sourceNodeRef := Some \<lparr>buffer = Some b, connected = True,
                                       playback = Started (currentTime s) (pauseTimeRef s)\<rparr>,
                isPlaying := True\<rparr>"
  have u: "updateProgress (Some b) ?s2 =
           Returned (?s2\<lparr>progress := (currentTime ?s2 - startTimeRef ?s2) / duration b * 100,
                       frames := frames ?s2 @ [(nextFrame ?s2, Some b)],
                       nextFrame := nextFrame ?s2 + 1,
                       animationFrameRef := nextFrame ?s2\<rparr>)"
    using assms by (intro updateProgress_tick) simp_all
  from assms(2,4) have "playAudio_resumed b s = updateProgress (Some b) ?s2"
    by (simp add: playAudio_resumed_def whenever_def returns_def node_start_def
        assign_sourceNodeRef_def Let_def)
  with u show ?thesis by simp
qed

lemma playAudio_running:
  "contextCreated s \<Longrightarrow> contextState s = Running \<Longrightarrow> audioBuffer s = Some b \<Longrightarrow>
   playAudio s = playAudio_resumed b s"
  by (simp add: playAudio_def)

lemma playAudio_suspended:
  "contextCreated s \<Longrightarrow> contextState s = Suspended \<Longrightarrow> audioBuffer s = Some b \<Longrightarrow>
   pendingPlays s = [] \<Longrightarrow>
   contextResumed (state_of (playAudio s)) =
     state_of (playAudio_resumed b (s\<lparr>contextState := Running, pendingPlays := []\<rparr>))"
  by (simp add: playAudio_def contextResumed_def)

lemma playAudio_resumed_started_at:
  assumes "contextCreated s" and "sourceNodeRef s = None" and "0 < duration b"
    and "0 \<le> pauseTimeRef s" and "pauseTimeRef s < duration b"
  shows "\<exists>s'. playAudio_resumed b s = Returned s' \<and> started_at (pauseTimeRef s) b s s'
           \<and> progress s' = pauseTimeRef s / duration b * 100"
  by (simp add: playAudio_resumed_fresh[OF assms] started_at_def)

text \<open>
  A \<open>playAudio\<close> on a suspended context with no other call waiting does, at the moment
  the context runs, what \<open>playAudio\<close> does on a running context.
\<close>

lemma playAudio_suspended_started_at:
  assumes "contextCreated s" and "contextState s = Suspended" and "audioBuffer s = Some b"
    and "pendingPlays s = []" and "sourceNodeRef s = None" and "0 < duration b"
    and "0 \<le> pauseTimeRef s" and "pauseTimeRef s < duration b"
  shows "started_at (pauseTimeRef s) b s (contextResumed (state_of (playAudio s)))"
proof -
  let ?t = "s\<lparr>contextState := Running, pendingPlays := []\<rparr>"
  have "contextResumed (state_of (playAudio s)) = state_of (playAudio_resumed b ?t)"
    using assms(1-4) by (rule playAudio_suspended)
  moreover have "\<exists>s'. playAudio_resumed b ?t = Returned s' \<and> started_at (pauseTimeRef ?t) b ?t s'
           \<and> progress s' = pauseTimeRef ?t / duration b * 100"
    using assms by (intro playAudio_resumed_started_at) simp_all
  ultimately show ?thesis by (auto simp: started_at_def)
qed

text \<open>
  Claim C5. \<open>playAudio\<close> without a loaded sample returns normally and leaves the whole
  state as it was: no engine is created, none of \<open>pauseTimeRef\<close>, \<open>startTimeRef\<close>,
  \<open>isPlaying\<close>, \<open>progress\<close> changes, and nothing is thrown. The same holds for the
  play/pause button.
\<close>

theorem playAudio_without_sample_is_noop:
  assumes "audioBuffer s = None"
  shows "playAudio s = Returned s \<and> togglePlayback s = Returned s
       \<and> step PlayAudio s = s \<and> engines (step PlayAudio s) = engines s"
  using assms by (simp add: playAudio_def togglePlayback_def)

text \<open>
  Claim C7. Every teardown path (\<open>stopAudio\<close>, \<open>resetAudio\<close>, replacing the sample, and
  \<open>pauseAudio\<close> once the context exists) returns normally from every state, also one
  whose engine has already finished and whose \<open>stop()\<close> therefore throws, and leaves
  the session torn down: engine released, the loop's pending frame cancelled,
  \<open>isPlaying\<close> cleared.
\<close>

theorem teardown_swallows_stop_errors:
  "(\<exists>s'. stopAudio s = Returned s' \<and> torn_down s s')
   \<and> (\<exists>s'. resetAudio s = Returned s' \<and> torn_down s s')
   \<and> (\<exists>s'. sampleReplaced newBuffer s = Returned s' \<and> torn_down s s')
   \<and> (contextCreated s \<longrightarrow> (\<exists>s'. pauseAudio s = Returned s' \<and> torn_down s s'))"
proof -
  have t: "torn_down s (state_of (stopAudio s))" by (rule stopAudio_torn_down)
  have a: "\<exists>s'. stopAudio s = Returned s' \<and> torn_down s s'"
    using t stopAudio_returns by blast
  have "torn_down s ((state_of (stopAudio s))\<lparr>pauseTimeRef := 0, progress := 0\<rparr>)"
    using t by (simp add: torn_down_def)
  then have b: "\<exists>s'. resetAudio s = Returned s' \<and> torn_down s s'"
    by (simp add: resetAudio_eq)
  have "torn_down s ((state_of (stopAudio (editModeEffect (receiveSample newBuffer s))))
                       \<lparr>pauseTimeRef := 0, progress := 0\<rparr>)"
    by (auto simp: torn_down_def stopAudio_fields stopAudio_frames editModeEffect_fields
        receiveSample_def)
  then have c: "\<exists>s'. sampleReplaced newBuffer s = Returned s' \<and> torn_down s s'"
    by (simp add: sampleReplaced_eq)
  have d: "contextCreated s \<longrightarrow> (\<exists>s'. pauseAudio s = Returned s' \<and> torn_down s s')"
    by (auto simp: pauseAudio_eq torn_down_def stopAudio_fields stopAudio_frames Let_def
        split: option.splits)
  show ?thesis by (intro conjI; fact a b c d)
qed

text \<open>
  Claim C4. When a tick of the progress loop finds \<open>elapsed / duration \<ge> 1\<close>, it sets
  the progress to exactly 100 percent (fraction 1), leaves the state that \<open>pauseAudio\<close>
  would leave except that \<open>pauseTimeRef\<close> is 0, and requests no further frame; a
  following \<open>playAudio\<close> starts at offset 0.
\<close>

theorem completion_tick_resets_session:
  assumes "map_of (frames s) h = Some (Some b)"
    and "contextCreated s" and "sourceNodeRef s \<noteq> None" and "0 < duration b"
    and "1 \<le> (currentTime s - startTimeRef s) / duration b"
  shows "\<exists>s'. animationFrameFired h s = Returned s'
      \<and> progress s' = 100 \<and> progressFraction s' = 1
      \<and> pauseTimeRef s' = 0
      \<and> sourceNodeRef s' = None \<and> \<not> isPlaying s'
      \<and> s' = (state_of (pauseAudio (cancelAnimationFrame h s)))\<lparr>pauseTimeRef := 0, progress := 100\<rparr>
      \<and> nextFrame s' = nextFrame s
      \<and> h \<notin> fst ` set (frames s')
      \<and> (animationFrameRef s \<noteq> 0 \<longrightarrow> animationFrameRef s \<notin> fst ` set (frames s'))
      \<and> set (frames s') \<subseteq> set (frames s)
      \<and> (frames s = [(h, Some b)] \<longrightarrow> frames s' = [])
      \<and> (\<forall>b'. contextState s' = Running \<and> audioBuffer s' = Some b' \<and> 0 < duration b'
             \<longrightarrow> (\<exists>s''. playAudio s' = Returned s'' \<and> started_at 0 b' s' s''))"
proof -
  let ?t = "cancelAnimationFrame h s"
  let ?r = "(state_of (stopAudio (?t\<lparr>progress := 100\<rparr>)))\<lparr>pauseTimeRef := 0\<rparr>"
  have t: "contextCreated ?t" "sourceNodeRef ?t \<noteq> None"
    "currentTime ?t = currentTime s" "startTimeRef ?t = startTimeRef s"
    using assms(2,3) by (simp_all add: cancelAnimationFrame_def)
  from assms(4,5) have "duration b \<le> currentTime ?t - startTimeRef ?t"
    by (simp add: t pos_le_divide_eq)
  then have u: "updateProgress (Some b) ?t = Returned ?r"
    using t(1,2) assms(4) by (intro updateProgress_complete)
  have e: "animationFrameFired h s = Returned ?r"
    using assms(1) u by (simp add: animationFrameFired_def returns_def)
  have c1: "progress ?r = 100" "progressFraction ?r = 1" "pauseTimeRef ?r = 0"
    "sourceNodeRef ?r = None" "\<not> isPlaying ?r"
    by (simp_all add: stopAudio_fields progressFraction_def)
  have c2: "?r = (state_of (pauseAudio ?t))\<lparr>pauseTimeRef := 0, progress := 100\<rparr>"
    using t(1) by (simp add: pauseAudio_eq stopAudio_eq Let_def split: option.splits)
  have c3: "nextFrame ?r = nextFrame s"
    by (simp add: stopAudio_fields cancelAnimationFrame_def)
  have fr: "frames ?r = (if animationFrameRef s \<noteq> 0
                         then filter (\<lambda>f. fst f \<noteq> animationFrameRef s)
                                (filter (\<lambda>f. fst f \<noteq> h) (frames s))
                         else filter (\<lambda>f. fst f \<noteq> h) (frames s))"
    by (simp add: stopAudio_frames cancelAnimationFrame_def)
  have c4: "h \<notin> fst ` set (frames ?r)"
    unfolding fr by auto
  have c5: "animationFrameRef s \<noteq> 0 \<longrightarrow> animationFrameRef s \<notin> fst ` set (frames ?r)"
    unfolding fr by auto
  have c6: "set (frames ?r) \<subseteq> set (frames s)"
    unfolding fr by auto
  have c7: "frames s = [(h, Some b)] \<longrightarrow> frames ?r = []"
    unfolding fr by auto
  have c8: "\<forall>b'. contextState ?r = Running \<and> audioBuffer ?r = Some b' \<and> 0 < duration b'
             \<longrightarrow> (\<exists>s''. playAudio ?r = Returned s'' \<and> started_at 0 b' ?r s'')"
  proof (intro allI impI)
    fix b'
    assume h: "contextState ?r = Running \<and> audioBuffer ?r = Some b' \<and> 0 < duration b'"
    have cc: "contextCreated ?r"
      using assms(2) by (simp add: stopAudio_fields cancelAnimationFrame_def)
    have "\<exists>s''. playAudio_resumed b' ?r = Returned s'' \<and> started_at (pauseTimeRef ?r) b' ?r s''
           \<and> progress s'' = pauseTimeRef ?r / duration b' * 100"
      using cc c1(4) h by (intro playAudio_resumed_started_at) simp_all
    then show "\<exists>s''. playAudio ?r = Returned s'' \<and> started_at 0 b' ?r s''"
      using cc h by (auto simp: playAudio_running[of ?r b'])
  qed
  show ?thesis
    by (intro exI[of _ ?r] conjI; fact e c1 c2 c3 c4 c5 c6 c7 c8)
qed

section \<open>Evaluation on concrete traces\<close>

lemmas model_defs =
  initial_def mount_def resetAudio_def stopAudio_def sampleReplaced_def playAudio_def
  playAudio_resumed_def pauseAudio_def updateProgress_def togglePlayback_def
  animationFrameFired_def elapse_def contextResumed_def
  editModeEffect_def receiveSample_def scriptChanged_def allowScriptEditChanged_def
  generatingAudioChanged_def resetClicked_def editClicked_def confirmClicked_def
  returns_def whenever_def tryCatch_def sourceNode_stop_def sourceNode_disconnect_def
  assign_sourceNodeRef_def requestAnimationFrame_def cancelAnimationFrame_def
  node_stop_def node_start_def active_def Let_def

theorem playAudio_without_sample_is_noop_witness:
  "audioBuffer (run [Mount Running] (initial False)) = None
   \<and> playAudio (run [Mount Running] (initial False)) = Returned (run [Mount Running] (initial False))"
  using playAudio_without_sample_is_noop[of "run [Mount Running] (initial False)"]
  by (simp add: model_defs)

lemma overrun_state:
  "run [Mount Running, SampleReplaced (Some \<lparr>duration = 10\<rparr>), PlayAudio, Elapse 12] (initial strict) =
   \<lparr>audioBuffer = Some \<lparr>duration = 10\<rparr>, script = EmptyScript, allowScriptEdit = False,
      isGeneratingAudio = False, isPlaying = True, progress = 0, isEditing = False,
      contextCreated = True, contextState = Running, currentTime = 12,
      sourceNodeRef = Some \<lparr>buffer = Some \<lparr>duration = 10\<rparr>, connected = True, playback = Started 0 0\<rparr>,
      startTimeRef = 0, pauseTimeRef = 0, animationFrameRef = 1,
      strictStop = strict, detached = [], frames = [(1, Some \<lparr>duration = 10\<rparr>)], nextFrame = 2, pendingPlays = []\<rparr>"
  by (simp add: model_defs)

theorem teardown_swallows_stop_errors_witness:
  "contextCreated (run [Mount Running, SampleReplaced (Some \<lparr>duration = 10\<rparr>), PlayAudio, Elapse 12] (initial True))
   \<and> sourceNode_stop (run [Mount Running, SampleReplaced (Some \<lparr>duration = 10\<rparr>), PlayAudio, Elapse 12] (initial True))
       = Threw InvalidStateError (run [Mount Running, SampleReplaced (Some \<lparr>duration = 10\<rparr>), PlayAudio, Elapse 12] (initial True))
   \<and> (\<exists>s'. pauseAudio (run [Mount Running, SampleReplaced (Some \<lparr>duration = 10\<rparr>), PlayAudio, Elapse 12] (initial True)) = Returned s'
          \<and> torn_down (run [Mount Running, SampleReplaced (Some \<lparr>duration = 10\<rparr>), PlayAudio, Elapse 12] (initial True)) s')"
  using teardown_swallows_stop_errors[of "run [Mount Running, SampleReplaced (Some \<lparr>duration = 10\<rparr>), PlayAudio, Elapse 12] (initial True)"]
  by (simp only: overrun_state) (simp add: sourceNode_stop_def node_stop_def active_def)

text \<open>
  The \<open>stop()\<close> in \<open>playAudio\<close> is outside any \<open>try\<close>: on that platform and in that
  state (the engine has played to its end, no tick has run yet) \<open>playAudio\<close> throws
  and starts nothing.
\<close>

lemma playAudio_on_finished_engine_throws:
  "playAudio (run [Mount Running, SampleReplaced (Some \<lparr>duration = 10\<rparr>), PlayAudio, Elapse 12] (initial True))
     = Threw InvalidStateError
         (run [Mount Running, SampleReplaced (Some \<lparr>duration = 10\<rparr>), PlayAudio, Elapse 12] (initial True))"
  by (simp only: overrun_state)
     (simp add: playAudio_def playAudio_resumed_def whenever_def sourceNode_stop_def node_stop_def
        active_def)

lemma midrun_state:
  "run [Mount Running, SampleReplaced (Some \<lparr>duration = 10\<rparr>), PlayAudio, Elapse 3] (initial False) =
   \<lparr>audioBuffer = Some \<lparr>duration = 10\<rparr>, script = EmptyScript, allowScriptEdit = False,
      isGeneratingAudio = False, isPlaying = True, progress = 0, isEditing = False,
      contextCreated = True, contextState = Running, currentTime = 3,
      sourceNodeRef = Some \<lparr>buffer = Some \<lparr>duration = 10\<rparr>, connected = True, playback = Started 0 0\<rparr>,
      startTimeRef = 0, pauseTimeRef = 0, animationFrameRef = 1,
      strictStop = False, detached = [], frames = [(1, Some \<lparr>duration = 10\<rparr>)], nextFrame = 2, pendingPlays = []\<rparr>"
  by (simp add: model_defs)

theorem completion_tick_resets_session_witness:
  "map_of (frames (run [Mount Running, SampleReplaced (Some \<lparr>duration = 10\<rparr>), PlayAudio, Elapse 12] (initial False))) 1
      = Some (Some \<lparr>duration = 10\<rparr>)
   \<and> contextCreated (run [Mount Running, SampleReplaced (Some \<lparr>duration = 10\<rparr>), PlayAudio, Elapse 12] (initial False))
   \<and> sourceNodeRef (run [Mount Running, SampleReplaced (Some \<lparr>duration = 10\<rparr>), PlayAudio, Elapse 12] (initial False)) \<noteq> None
   \<and> (0::real) < duration \<lparr>duration = 10\<rparr>
   \<and> 1 \<le> (currentTime (run [Mount Running, SampleReplaced (Some \<lparr>duration = 10\<rparr>), PlayAudio, Elapse 12] (initial False))
            - startTimeRef (run [Mount Running, SampleReplaced (Some \<lparr>duration = 10\<rparr>), PlayAudio, Elapse 12] (initial False)))
           / duration \<lparr>duration = 10\<rparr>
   \<and> (\<exists>s'. animationFrameFired 1 (run [Mount Running, SampleReplaced (Some \<lparr>duration = 10\<rparr>), PlayAudio, Elapse 12] (initial False)) = Returned s'
          \<and> progress s' = 100 \<and> progressFraction s' = 1 \<and> pauseTimeRef s' = 0
          \<and> sourceNodeRef s' = None \<and> \<not> isPlaying s' \<and> frames s' = [])"
  using completion_tick_resets_session[of
      "run [Mount Running, SampleReplaced (Some \<lparr>duration = 10\<rparr>), PlayAudio, Elapse 12] (initial False)"
      1 "\<lparr>duration = 10\<rparr>"]
  by (simp only: overrun_state) auto

lemma playing_state:
  "run [Mount Running, SampleReplaced (Some \<lparr>duration = 10\<rparr>), PlayAudio, Elapse 3, AnimationFrame 1]
       (initial False) =
   \<lparr>audioBuffer = Some \<lparr>duration = 10\<rparr>, script = EmptyScript, allowScriptEdit = False,
      isGeneratingAudio = False, isPlaying = True, progress = 30, isEditing = False,
      contextCreated = True, contextState = Running, currentTime = 3,
      sourceNodeRef = Some \<lparr>buffer = Some \<lparr>duration = 10\<rparr>, connected = True, playback = Started 0 0\<rparr>,
      startTimeRef = 0, pauseTimeRef = 0, animationFrameRef = 2,
      strictStop = False, detached = [], frames = [(2, Some \<lparr>duration = 10\<rparr>)], nextFrame = 3,
      pendingPlays = []\<rparr>"
  by (simp add: model_defs)

section \<open>Pause and resume\<close>

lemma elapsed_of_nonneg: "waiting w \<Longrightarrow> 0 \<le> elapsed_of w"
  by (induction w rule: waiting.induct) simp_all

lemma tick_while_playing:
  assumes "playing_with b s" and "0 < duration b"
    and "currentTime s - startTimeRef s < duration b"
  shows "playing_with b (step (AnimationFrame h) s)
       \<and> currentTime (step (AnimationFrame h) s) = currentTime s
       \<and> startTimeRef (step (AnimationFrame h) s) = startTimeRef s"
proof (cases "map_of (frames s) h")
  case None
  with assms(1) show ?thesis by (simp add: animationFrameFired_def)
next
  case (Some captured)
  then have "(h, captured) \<in> set (frames s)" by (rule map_of_SomeD)
  with assms(1) have c: "captured = Some b" by (auto simp: playing_with_def)
  let ?t = "cancelAnimationFrame h s"
  have t: "contextCreated ?t" "sourceNodeRef ?t \<noteq> None" 
    "currentTime ?t - startTimeRef ?t < duration b"
    using assms by (simp_all add: cancelAnimationFrame_def playing_with_def)
  have "step (AnimationFrame h) s = state_of (updateProgress (Some b) ?t)"
    using Some c by (simp add: animationFrameFired_def returns_def)
  also have "\<dots> = ?t\<lparr>progress := (currentTime ?t - startTimeRef ?t) / duration b * 100,
                       frames := frames ?t @ [(nextFrame ?t, Some b)],
                       nextFrame := nextFrame ?t + 1,
                       animationFrameRef := nextFrame ?t\<rparr>"
    by (simp add: updateProgress_tick[OF t(1,2) assms(2) t(3)])
  finally show ?thesis
    using assms(1) by (auto simp: playing_with_def cancelAnimationFrame_def)
qed

lemma wait_while_playing:
  assumes "waiting w" and "0 < duration b" and "playing_with b s"
    and "currentTime s + elapsed_of w - startTimeRef s < duration b"
  shows "playing_with b (run w s)
       \<and> currentTime (run w s) = currentTime s + elapsed_of w
       \<and> startTimeRef (run w s) = startTimeRef s"
  using assms
proof (induction w arbitrary: s rule: waiting.induct)
  case 1
  then show ?case by simp
next
  case (2 d es)
  let ?s = "step (Elapse d) s"
  from 2(2) have d: "0 \<le> d" and w: "waiting es" by simp_all
  from 2(4) d have p: "playing_with b ?s" "currentTime ?s = currentTime s + d"
    "startTimeRef ?s = startTimeRef s"
    by (simp_all add: playing_with_def elapse_def)
  from 2(5) p have "currentTime ?s + elapsed_of es - startTimeRef ?s < duration b" by simp
  from 2(1)[OF w 2(3) p(1) this] p show ?case by simp
next
  case (3 h es)
  let ?s = "step (AnimationFrame h) s"
  from 3(2) have w: "waiting es" by simp
  from 3(5) elapsed_of_nonneg[OF w] have "currentTime s - startTimeRef s < duration b" by simp
  from tick_while_playing[OF 3(4) 3(3) this, of h]
  have p: "playing_with b ?s" "currentTime ?s = currentTime s" "startTimeRef ?s = startTimeRef s"
    by simp_all
  from 3(5) p have "currentTime ?s + elapsed_of es - startTimeRef ?s < duration b" by simp
  from 3(1)[OF w 3(3) p(1) this] p show ?case by simp
qed simp_all

lemma tick_while_paused:
  assumes "paused_with b s"
  shows "paused_with b (step (AnimationFrame h) s)
       \<and> currentTime (step (AnimationFrame h) s) = currentTime s
       \<and> pauseTimeRef (step (AnimationFrame h) s) = pauseTimeRef s"
proof (cases "map_of (frames s) h")
  case None
  with assms show ?thesis by (simp add: animationFrameFired_def)
next
  case (Some captured)
  let ?t = "cancelAnimationFrame h s"
  from assms have "sourceNodeRef ?t = None" by (simp add: paused_with_def cancelAnimationFrame_def)
  then have "updateProgress captured ?t = Returned ?t" by (simp add: updateProgress_inert)
  with Some have "step (AnimationFrame h) s = ?t"
    by (simp add: animationFrameFired_def returns_def)
  with assms show ?thesis by (auto simp: paused_with_def cancelAnimationFrame_def)
qed

lemma wait_while_paused:
  assumes "waiting w" and "paused_with b s"
  shows "paused_with b (run w s) \<and> currentTime (run w s) = currentTime s + elapsed_of w
       \<and> pauseTimeRef (run w s) = pauseTimeRef s"
  using assms
proof (induction w arbitrary: s rule: waiting.induct)
  case 1
  then show ?case by simp
next
  case (2 d es)
  let ?s = "step (Elapse d) s"
  from 2(2) have d: "0 \<le> d" and w: "waiting es" by simp_all
  from 2(3) d have p: "paused_with b ?s" "currentTime ?s = currentTime s + d"
    "pauseTimeRef ?s = pauseTimeRef s"
    by (simp_all add: paused_with_def elapse_def)
  from 2(1)[OF w p(1)] p show ?case by simp
next
  case (3 h es)
  let ?s = "step (AnimationFrame h) s"
  from 3(2) have w: "waiting es" by simp
  from tick_while_paused[OF 3(3), of h]
  have p: "paused_with b ?s" "currentTime ?s = currentTime s" "pauseTimeRef ?s = pauseTimeRef s"
    by simp_all
  from 3(1)[OF w p(1)] p show ?case by simp
qed simp_all

lemma play_wait_pause:
  assumes "paused_with b s" and "0 < duration b" and "waiting w"
    and "pauseTimeRef s + elapsed_of w < duration b"
  shows "\<exists>s1 s2. playAudio s = Returned s1 \<and> started_at (pauseTimeRef s) b s s1
           \<and> pauseAudio (run w s1) = Returned s2
           \<and> pauseTimeRef s2 = pauseTimeRef s + elapsed_of w
           \<and> progress s2 = pauseTimeRef s2 / duration b * 100
           \<and> \<not> isPlaying s2
           \<and> paused_with b s2"
proof -
  from assms(1) have c: "contextCreated s" "contextState s = Running" "audioBuffer s = Some b"
    "sourceNodeRef s = None" "0 \<le> pauseTimeRef s" "\<forall>f \<in> set (frames s). snd f = Some b"
    by (simp_all add: paused_with_def)
  from assms(4) elapsed_of_nonneg[OF assms(3)] have lt: "pauseTimeRef s < duration b" by simp
  let ?s1 = "s\<lparr>startTimeRef := currentTime s - pauseTimeRef s,
                       sourceNodeRef := Some \<lparr>buffer = Some b, connected = True,
                                              playback = Started (currentTime s) (pauseTimeRef s)\<rparr>,
                       isPlaying := True,
                       progress := pauseTimeRef s / duration b * 100,
                       frames := frames s @ [(nextFrame s, Some b)],
                       nextFrame := nextFrame s + 1,
                       animationFrameRef := nextFrame s\<rparr>"
  have e1: "playAudio s = Returned ?s1"
    using playAudio_resumed_fresh[OF c(1) c(4) assms(2) c(5) lt] c
    by (simp add: playAudio_running)
  have st: "started_at (pauseTimeRef s) b s ?s1" by (simp add: started_at_def)
  have p1: "playing_with b ?s1" using c by (simp add: playing_with_def)
  have "currentTime ?s1 + elapsed_of w - startTimeRef ?s1 < duration b"
    using assms(4) by simp
  from wait_while_playing[OF assms(3) assms(2) p1 this]
  have r: "playing_with b (run w ?s1)" "currentTime (run w ?s1) = currentTime s + elapsed_of w"
    "startTimeRef (run w ?s1) = currentTime s - pauseTimeRef s"
    by simp_all
  let ?r = "run w ?s1"
  from r(1) have rc: "contextCreated ?r" "contextState ?r = Running" "audioBuffer ?r = Some b"
    "\<forall>f \<in> set (frames ?r). snd f = Some b"
    by (simp_all add: playing_with_def)
  let ?s2 = "(state_of (stopAudio (?r\<lparr>pauseTimeRef := pauseTimeRef s + elapsed_of w\<rparr>)))
               \<lparr>progress := (pauseTimeRef s + elapsed_of w) / duration b * 100\<rparr>"
  have el: "currentTime ?r - startTimeRef ?r = pauseTimeRef s + elapsed_of w"
    using r(2,3) by simp
  have e2: "pauseAudio ?r = Returned ?s2"
    using pauseAudio_eq[OF rc(1)] by (simp only: Let_def el rc(3) option.case)
  have f2: "pauseTimeRef ?s2 = pauseTimeRef s + elapsed_of w"
    "progress ?s2 = pauseTimeRef ?s2 / duration b * 100" "\<not> isPlaying ?s2"
    by (simp_all add: stopAudio_fields)
  have "0 \<le> pauseTimeRef s + elapsed_of w"
    using c(5) elapsed_of_nonneg[OF assms(3)] by simp
  then have p2: "paused_with b ?s2"
    using rc by (auto simp: paused_with_def stopAudio_fields stopAudio_frames)
  show ?thesis
    by (intro exI[of _ ?s1] exI[of _ ?s2] conjI; fact e1 st e2 f2 p2)
qed


text \<open>
  Claim C1. On a loaded sample of duration \<open>D\<close>, from a session that is not active
  (fresh, with \<open>pauseTimeRef = 0\<close>, or paused): \<open>playAudio\<close> starts the engine at the
  offset \<open>pauseTimeRef\<close> and sets \<open>startTimeRef = currentTime - pauseTimeRef\<close>; after
  waiting \<open>p\<close> seconds, \<open>pauseAudio\<close> stores the old offset plus \<open>p\<close>; however long the
  pause lasts, the next \<open>playAudio\<close> resumes at that offset, and after a second run of
  \<open>q\<close> seconds \<open>pauseAudio\<close> stores the old offset plus \<open>p + q\<close>, as long as that is
  below \<open>D\<close>. Frames of the progress loop may fire at any point of the waits.
\<close>

theorem pause_resume_keeps_elapsed_time:
  assumes "contextCreated s" and "contextState s = Running"
    and "audioBuffer s = Some b" and "0 < duration b"
    and "sourceNodeRef s = None" and "0 \<le> pauseTimeRef s"
    and "\<forall>f \<in> set (frames s). snd f = Some b"
    and "waiting w1" and "waiting gap" and "waiting w2"
    and "pauseTimeRef s + elapsed_of w1 + elapsed_of w2 < duration b"
  shows "\<exists>s1 s2 s3 s4.
       playAudio s = Returned s1 \<and> started_at (pauseTimeRef s) b s s1
     \<and> pauseAudio (run w1 s1) = Returned s2
     \<and> pauseTimeRef s2 = pauseTimeRef s + elapsed_of w1
     \<and> progress s2 = pauseTimeRef s2 / duration b * 100
     \<and> \<not> isPlaying s2
     \<and> pauseTimeRef (run gap s2) = pauseTimeRef s2
     \<and> playAudio (run gap s2) = Returned s3
     \<and> started_at (pauseTimeRef s + elapsed_of w1) b (run gap s2) s3
     \<and> pauseAudio (run w2 s3) = Returned s4
     \<and> pauseTimeRef s4 = pauseTimeRef s + elapsed_of w1 + elapsed_of w2
     \<and> progress s4 = pauseTimeRef s4 / duration b * 100"
proof -
  have p0: "paused_with b s"
    using assms(1,2,3,5,6,7) by (simp add: paused_with_def)
  have "pauseTimeRef s + elapsed_of w1 < duration b"
    using assms(11) elapsed_of_nonneg[OF assms(10)] by simp
  from play_wait_pause[OF p0 assms(4) assms(8) this]
  obtain s1 s2 where first: "playAudio s = Returned s1" "started_at (pauseTimeRef s) b s s1"
    "pauseAudio (run w1 s1) = Returned s2" "pauseTimeRef s2 = pauseTimeRef s + elapsed_of w1"
    "progress s2 = pauseTimeRef s2 / duration b * 100" "\<not> isPlaying s2" "paused_with b s2"
    by blast
  from wait_while_paused[OF assms(9) first(7)]
  have g: "paused_with b (run gap s2)" "pauseTimeRef (run gap s2) = pauseTimeRef s2"
    by simp_all
  have "pauseTimeRef (run gap s2) + elapsed_of w2 < duration b"
    using assms(11) g(2) first(4) by simp
  from play_wait_pause[OF g(1) assms(4) assms(10) this]
  obtain s3 s4 where second: "playAudio (run gap s2) = Returned s3"
    "started_at (pauseTimeRef (run gap s2)) b (run gap s2) s3"
    "pauseAudio (run w2 s3) = Returned s4"
    "pauseTimeRef s4 = pauseTimeRef (run gap s2) + elapsed_of w2"
    "progress s4 = pauseTimeRef s4 / duration b * 100"
    by blast
  have c9: "started_at (pauseTimeRef s + elapsed_of w1) b (run gap s2) s3"
    using second(2) g(2) first(4) by simp
  have c11: "pauseTimeRef s4 = pauseTimeRef s + elapsed_of w1 + elapsed_of w2"
    using second(4) g(2) first(4) by simp
  show ?thesis
    by (intro exI[of _ s1] exI[of _ s2] exI[of _ s3] exI[of _ s4] conjI;
        fact first g(2) second(1,3,5) c9 c11)
qed

lemma loaded_state:
  "run [Mount Running, SampleReplaced (Some \<lparr>duration = 10\<rparr>)] (initial False) =
   \<lparr>audioBuffer = Some \<lparr>duration = 10\<rparr>, script = EmptyScript, allowScriptEdit = False,
      isGeneratingAudio = False, isPlaying = False, progress = 0, isEditing = False,
      contextCreated = True, contextState = Running, currentTime = 0,
      sourceNodeRef = None, startTimeRef = 0, pauseTimeRef = 0, animationFrameRef = 0,
      strictStop = False, detached = [], frames = [], nextFrame = 1, pendingPlays = []\<rparr>"
  by (simp add: model_defs)

theorem pause_resume_keeps_elapsed_time_witness:
  "\<exists>s1 s2 s3 s4.
       playAudio (run [Mount Running, SampleReplaced (Some \<lparr>duration = 10\<rparr>)] (initial False)) = Returned s1
     \<and> pauseAudio (run [Elapse 1, AnimationFrame 1, Elapse 2] s1) = Returned s2
     \<and> pauseTimeRef s2 = 3 \<and> progress s2 = 30
     \<and> playAudio (run [Elapse (1/2)] s2) = Returned s3
     \<and> startTimeRef s3 = 1/2
     \<and> pauseAudio (run [Elapse 4, AnimationFrame 2] s3) = Returned s4
     \<and> pauseTimeRef s4 = 7 \<and> progress s4 = 70"
proof -
  let ?s = "run [Mount Running, SampleReplaced (Some \<lparr>duration = 10\<rparr>)] (initial False)"
  have h: "contextCreated ?s" "contextState ?s = Running"
    "audioBuffer ?s = Some \<lparr>duration = 10\<rparr>" "(0::real) < duration \<lparr>duration = 10\<rparr>"
    "sourceNodeRef ?s = None" "0 \<le> pauseTimeRef ?s"
    "\<forall>f \<in> set (frames ?s). snd f = Some \<lparr>duration = 10\<rparr>"
    by (simp_all only: loaded_state) simp_all
  have w: "waiting [Elapse 1, AnimationFrame 1, Elapse 2]" "waiting [Elapse (1/2)]"
    "waiting [Elapse 4, AnimationFrame 2]"
    by simp_all
  have b: "pauseTimeRef ?s + elapsed_of [Elapse 1, AnimationFrame 1, Elapse 2]
             + elapsed_of [Elapse 4, AnimationFrame 2] < duration \<lparr>duration = 10\<rparr>"
    by (simp only: loaded_state) simp
  have p: "pauseTimeRef ?s = 0" by (simp only: loaded_state) simp
  from pause_resume_keeps_elapsed_time[OF h w b]
  obtain s1 s2 s3 s4 where r:
    "playAudio ?s = Returned s1"
    "pauseAudio (run [Elapse 1, AnimationFrame 1, Elapse 2] s1) = Returned s2"
    "pauseTimeRef s2 = pauseTimeRef ?s + elapsed_of [Elapse 1, AnimationFrame 1, Elapse 2]"
    "progress s2 = pauseTimeRef s2 / duration \<lparr>duration = 10\<rparr> * 100"
    "pauseTimeRef (run [Elapse (1/2)] s2) = pauseTimeRef s2"
    "playAudio (run [Elapse (1/2)] s2) = Returned s3"
    "started_at (pauseTimeRef ?s + elapsed_of [Elapse 1, AnimationFrame 1, Elapse 2])
       \<lparr>duration = 10\<rparr> (run [Elapse (1/2)] s2) s3"
    "pauseAudio (run [Elapse 4, AnimationFrame 2] s3) = Returned s4"
    "pauseTimeRef s4 = pauseTimeRef ?s + elapsed_of [Elapse 1, AnimationFrame 1, Elapse 2]
                        + elapsed_of [Elapse 4, AnimationFrame 2]"
    "progress s4 = pauseTimeRef s4 / duration \<lparr>duration = 10\<rparr> * 100"
    by blast
  have a2: "pauseTimeRef s2 = 3" using r(3) p by simp
  have a2p: "progress s2 = 30" using r(4) a2 by simp
  have a4: "pauseTimeRef s4 = 7" using r(9) p by simp
  have a4p: "progress s4 = 70" using r(10) a4 by simp
  have "s1 = state_of (playAudio ?s)" using r(1) by simp
  then have s1: "s1 = \<lparr>audioBuffer = Some \<lparr>duration = 10\<rparr>, script = EmptyScript, allowScriptEdit = False,
      isGeneratingAudio = False, isPlaying = True, progress = 0, isEditing = False,
      contextCreated = True, contextState = Running, currentTime = 0,
      sourceNodeRef = Some \<lparr>buffer = Some \<lparr>duration = 10\<rparr>, connected = True, playback = Started 0 0\<rparr>,
      startTimeRef = 0, pauseTimeRef = 0, animationFrameRef = 1,
      strictStop = False, detached = [], frames = [(1, Some \<lparr>duration = 10\<rparr>)], nextFrame = 2, pendingPlays = []\<rparr>"
    by (simp only: loaded_state) (simp add: model_defs)
  have "s2 = state_of (pauseAudio (run [Elapse 1, AnimationFrame 1, Elapse 2] s1))"
    using r(2) by simp
  then have "currentTime (run [Elapse (1/2)] s2) = 7/2"
    unfolding s1 by (simp add: model_defs)
  with r(7) a2 p have a3: "startTimeRef s3 = 1/2"
    by (simp add: started_at_def)
  show ?thesis
    by (intro exI[of _ s1] exI[of _ s2] exI[of _ s3] exI[of _ s4] conjI;
        fact r(1,2,6,8) a2 a2p a3 a4 a4p)
qed

section \<open>One active engine\<close>


lemma active_mono: "active now' n \<Longrightarrow> now \<le> now' \<Longrightarrow> active now n"
  by (auto simp: active_def split: playback_state.splits option.splits)

lemma node_stop_result_inactive:
  "\<not> active now (case node_stop strict now n of Inl e \<Rightarrow> n | Inr n' \<Rightarrow> n'\<lparr>connected := False\<rparr>)"
  by (auto simp: node_stop_def active_def split: playback_state.splits option.splits)

lemma node_stop_Inr: "node_stop strict now n = Inr n' \<Longrightarrow> n' = n\<lparr>playback := Stopped\<rparr>"
  by (auto simp: node_stop_def split: playback_state.splits if_splits)

lemma stopped_inactive: "\<not> active now (n\<lparr>playback := Stopped\<rparr>)"
  by (simp add: active_def)

lemma detached_silent_stopAudio:
  "detached_silent s \<Longrightarrow> detached_silent (state_of (stopAudio s))"
  using node_stop_result_inactive
  by (auto simp: detached_silent_def stopAudio_eq split: option.splits)

lemma updateProgress_cases:
  "updateProgress captured s =
     (if \<not> contextCreated s \<or> sourceNodeRef s = None then Returned s
      else case captured of
        None \<Rightarrow> Returned s
      | Some b \<Rightarrow>
          if 100 \<le> (currentTime s - startTimeRef s) / duration b * 100
          then Returned ((state_of (stopAudio (s\<lparr>progress := 100\<rparr>)))\<lparr>pauseTimeRef := 0\<rparr>)
          else Returned (s\<lparr>progress := (currentTime s - startTimeRef s) / duration b * 100,
                           frames := frames s @ [(nextFrame s, Some b)],
                           nextFrame := nextFrame s + 1,
                           animationFrameRef := nextFrame s\<rparr>))"
  by (simp add: updateProgress_def returns_def stopAudio_eq requestAnimationFrame_def Let_def
      split: option.splits)

lemma detached_silent_updateProgress:
  assumes "detached_silent s"
  shows "detached_silent (state_of (updateProgress captured s))"
proof -
  have "detached_silent (s\<lparr>progress := 100\<rparr>)"
    using assms by (simp add: detached_silent_def)
  then have "detached_silent (state_of (stopAudio (s\<lparr>progress := 100\<rparr>)))"
    by (rule detached_silent_stopAudio)
  then have a: "detached_silent ((state_of (stopAudio (s\<lparr>progress := 100\<rparr>)))\<lparr>pauseTimeRef := 0\<rparr>)"
    by (simp add: detached_silent_def)
  have b: "detached_silent (s\<lparr>progress := p, frames := f, nextFrame := k, animationFrameRef := h\<rparr>)"
    for p f k h
    using assms by (simp add: detached_silent_def)
  show ?thesis
    unfolding updateProgress_cases using assms a b by (simp split: option.splits)
qed

lemma playAudio_resumed_cases:
  "playAudio_resumed b s =
     (case sourceNodeRef s of
        None \<Rightarrow>
          if pauseTimeRef s < 0
          then Threw RangeError
                 (s\<lparr>startTimeRef := currentTime s - pauseTimeRef s,
                    detached := detached s @ [\<lparr>buffer = Some b, connected = True, playback = Unscheduled\<rparr>]\<rparr>)
          else updateProgress (Some b)
                 (s\<lparr>startTimeRef := currentTime s - pauseTimeRef s,
                    sourceNodeRef := Some \<lparr>buffer = Some b, connected = True,
                                           playback = Started (currentTime s) (pauseTimeRef s)\<rparr>,
                    isPlaying := True\<rparr>)
      | Some n \<Rightarrow>
          (case node_stop (strictStop s) (currentTime s) n of
             Inl e \<Rightarrow> Threw e s
           | Inr n' \<Rightarrow>
               if pauseTimeRef s < 0
               then Threw RangeError
                      (s\<lparr>sourceNodeRef := Some n',
                         startTimeRef := currentTime s - pauseTimeRef s,
                         detached := detached s @ [\<lparr>buffer = Some b, connected = True, playback = Unscheduled\<rparr>]\<rparr>)
               else updateProgress (Some b)
                      (s\<lparr>startTimeRef := currentTime s - pauseTimeRef s,
                         sourceNodeRef := Some \<lparr>buffer = Some b, connected = True,
                                                playback = Started (currentTime s) (pauseTimeRef s)\<rparr>,
                         detached := detached s @ [n'],
                         isPlaying := True\<rparr>)))"
  by (simp add: playAudio_resumed_def whenever_def returns_def sourceNode_stop_def node_start_def
      assign_sourceNodeRef_def Let_def split: option.splits sum.splits)

lemma detached_silent_playAudio_resumed:
  assumes "detached_silent s"
  shows "detached_silent (state_of (playAudio_resumed b s))"
proof (cases "sourceNodeRef s")
  case None
  show ?thesis
  proof (cases "pauseTimeRef s < 0")
    case True
    with None assms show ?thesis
      by (simp add: playAudio_resumed_cases detached_silent_def active_def)
  next
    case False
    have "detached_silent (s\<lparr>startTimeRef := currentTime s - pauseTimeRef s,
                    sourceNodeRef := Some \<lparr>buffer = Some b, connected = True,
                                           playback = Started (currentTime s) (pauseTimeRef s)\<rparr>,
                    isPlaying := True\<rparr>)"
      using assms by (simp add: detached_silent_def)
    then show ?thesis
      using None False by (simp add: playAudio_resumed_cases detached_silent_updateProgress)
  qed
next
  case (Some n)
  show ?thesis
  proof (cases "node_stop (strictStop s) (currentTime s) n")
    case (Inl e)
    with Some assms show ?thesis by (simp add: playAudio_resumed_cases)
  next
    case (Inr n')
    then have n': "\<not> active (currentTime s) n'"
      using node_stop_Inr[OF Inr] by (simp add: stopped_inactive)
    show ?thesis
    proof (cases "pauseTimeRef s < 0")
      case True
      with Some Inr assms show ?thesis
        by (simp add: playAudio_resumed_cases detached_silent_def active_def)
    next
      case False
      have "detached_silent (s\<lparr>startTimeRef := currentTime s - pauseTimeRef s,
                         sourceNodeRef := Some \<lparr>buffer = Some b, connected = True,
                                                playback = Started (currentTime s) (pauseTimeRef s)\<rparr>,
                         detached := detached s @ [n'],
                         isPlaying := True\<rparr>)"
        using assms n' by (simp add: detached_silent_def)
      then show ?thesis
        using Some Inr False by (simp add: playAudio_resumed_cases detached_silent_updateProgress)
    qed
  qed
qed

lemma detached_silent_playAudio:
  "detached_silent s \<Longrightarrow> detached_silent (state_of (playAudio s))"
  by (auto simp: playAudio_def detached_silent_playAudio_resumed split: option.splits)
     (simp add: detached_silent_def)

lemma detached_silent_pauseAudio:
  assumes "detached_silent s"
  shows "detached_silent (state_of (pauseAudio s))"
proof (cases "contextCreated s")
  case False
  with assms show ?thesis by (simp add: pauseAudio_def)
next
  case True
  have "detached_silent (s\<lparr>pauseTimeRef := currentTime s - startTimeRef s\<rparr>)"
    using assms by (simp add: detached_silent_def)
  then have "detached_silent (state_of (stopAudio (s\<lparr>pauseTimeRef := currentTime s - startTimeRef s\<rparr>)))"
    by (rule detached_silent_stopAudio)
  with True show ?thesis
    by (simp add: pauseAudio_eq Let_def detached_silent_def split: option.splits)
qed

lemma detached_silent_resetAudio:
  "detached_silent s \<Longrightarrow> detached_silent (state_of (resetAudio s))"
  using detached_silent_stopAudio[of s] by (simp add: resetAudio_eq detached_silent_def)

lemma detached_silent_sampleReplaced:
  assumes "detached_silent s"
  shows "detached_silent (state_of (sampleReplaced nb s))"
proof -
  have "detached_silent (editModeEffect (receiveSample nb s))"
    using assms by (simp add: detached_silent_def editModeEffect_fields receiveSample_def)
  from detached_silent_stopAudio[OF this] show ?thesis
    by (simp add: sampleReplaced_eq detached_silent_def)
qed

lemma detached_silent_mount:
  assumes "detached_silent s"
  shows "detached_silent (state_of (mount c s))"
proof (cases "contextCreated s")
  case True
  with assms show ?thesis by (simp add: mount_def)
next
  case False
  let ?t = "editModeEffect (s\<lparr>contextCreated := True, contextState := c\<rparr>)"
  have "detached_silent ?t" using assms by (simp add: detached_silent_def editModeEffect_fields)
  from detached_silent_resetAudio[OF this] False show ?thesis
    by (simp add: mount_eq)
qed

lemma detached_silent_togglePlayback:
  "detached_silent s \<Longrightarrow> detached_silent (state_of (togglePlayback s))"
  by (simp add: togglePlayback_def detached_silent_pauseAudio detached_silent_playAudio)

lemma detached_silent_resetClicked:
  "detached_silent s \<Longrightarrow> detached_silent (state_of (resetClicked s))"
  by (simp add: resetClicked_def detached_silent_resetAudio)

lemma detached_silent_editClicked:
  assumes "detached_silent s"
  shows "detached_silent (state_of (editClicked s))"
proof -
  have "detached_silent (s\<lparr>isEditing := True\<rparr>)" using assms by (simp add: detached_silent_def)
  from detached_silent_stopAudio[OF this] assms show ?thesis
    by (simp add: editClicked_eq)
qed

lemma detached_silent_confirmClicked:
  "detached_silent s \<Longrightarrow> detached_silent (state_of (confirmClicked s))"
  by (simp add: confirmClicked_def detached_silent_def)

lemma detached_silent_props:
  "detached_silent s \<Longrightarrow> detached_silent (scriptChanged c s)"
  "detached_silent s \<Longrightarrow> detached_silent (allowScriptEditChanged a s)"
  "detached_silent s \<Longrightarrow> detached_silent (generatingAudioChanged g s)"
  by (simp_all add: detached_silent_def scriptChanged_def allowScriptEditChanged_def
      generatingAudioChanged_def editModeEffect_fields)

lemma detached_silent_animationFrameFired:
  assumes "detached_silent s"
  shows "detached_silent (state_of (animationFrameFired h s))"
proof (cases "map_of (frames s) h")
  case None
  with assms show ?thesis by (simp add: animationFrameFired_def)
next
  case (Some captured)
  have "detached_silent (cancelAnimationFrame h s)"
    using assms by (simp add: detached_silent_def cancelAnimationFrame_def)
  from detached_silent_updateProgress[OF this] Some show ?thesis
    by (simp add: animationFrameFired_def returns_def)
qed

lemma detached_silent_elapse:
  "detached_silent s \<Longrightarrow> detached_silent (elapse d s)"
proof -
  have "\<not> active (currentTime s + d) n" if "\<not> active (currentTime s) n" "0 \<le> d" for n
    using that active_mono[of "currentTime s + d" n "currentTime s"] by auto
  then show "detached_silent s \<Longrightarrow> detached_silent (elapse d s)"
    by (auto simp: detached_silent_def elapse_def)
qed

lemma detached_silent_pending:
  "detached_silent s \<Longrightarrow>
   detached_silent (fold (\<lambda>b s'. state_of (playAudio_resumed b s')) bs s)"
  by (induction bs arbitrary: s) (simp_all add: detached_silent_playAudio_resumed)

lemma detached_silent_contextResumed:
  assumes "detached_silent s"
  shows "detached_silent (contextResumed s)"
proof -
  have "detached_silent (s\<lparr>contextState := Running, pendingPlays := []\<rparr>)"
    using assms by (simp add: detached_silent_def)
  then show ?thesis
    unfolding contextResumed_def by (rule detached_silent_pending)
qed

lemma detached_silent_step:
  "detached_silent s \<Longrightarrow> detached_silent (step e s)"
  by (cases e)
     (simp_all add: detached_silent_mount detached_silent_playAudio detached_silent_pauseAudio
        detached_silent_resetAudio detached_silent_stopAudio detached_silent_togglePlayback
        detached_silent_resetClicked detached_silent_editClicked detached_silent_confirmClicked
        detached_silent_props
        detached_silent_sampleReplaced detached_silent_contextResumed
        detached_silent_animationFrameFired detached_silent_elapse)

lemma detached_silent_run:
  "detached_silent s \<Longrightarrow> detached_silent (run evs s)"
  by (induction evs arbitrary: s) (simp_all add: detached_silent_step)

lemma detached_silent_initial: "detached_silent (initial strict)"
  by (simp add: detached_silent_def initial_def)

lemma detached_silent_one_engine:
  assumes "detached_silent s"
  shows "length (active_engines s) \<le> 1"
proof -
  from assms have "filter (active (currentTime s)) (detached s) = []"
    by (simp add: detached_silent_def filter_empty_conv)
  then show ?thesis
    by (simp add: active_engines_def engines_def split: option.splits)
qed

lemma detached_grows_updateProgress:
  "set (detached s) \<subseteq> set (detached (state_of (updateProgress captured s)))"
  by (auto simp: updateProgress_cases stopAudio_eq split: option.splits)

lemma playAudio_resumed_stops_old:
  assumes "sourceNodeRef s = Some n" and "playAudio_resumed b s = Returned s'"
  shows "n\<lparr>playback := Stopped\<rparr> \<in> set (detached s')"
proof (cases "node_stop (strictStop s) (currentTime s) n")
  case (Inl e)
  with assms show ?thesis by (simp add: playAudio_resumed_cases)
next
  case (Inr n')
  note n' = node_stop_Inr[OF Inr]
  let ?t = "s\<lparr>startTimeRef := currentTime s - pauseTimeRef s,
                         sourceNodeRef := Some \<lparr>buffer = Some b, connected = True,
                                                playback = Started (currentTime s) (pauseTimeRef s)\<rparr>,
                         detached := detached s @ [n'],
                         isPlaying := True\<rparr>"
  from assms Inr have "\<not> pauseTimeRef s < 0" and "s' = state_of (updateProgress (Some b) ?t)"
    by (auto simp: playAudio_resumed_cases split: if_splits)
  moreover have "n' \<in> set (detached ?t)" by simp
  ultimately show ?thesis
    using detached_grows_updateProgress[of ?t "Some b"] n' by auto
qed

text \<open>
  Claim C2. In every state the component can reach, by any sequence of events (direct
  calls of \<open>playAudio\<close> in any state included), at most one source node is active, and
  it is the one in \<open>sourceNodeRef\<close>; a \<open>playAudio\<close> that finds a node there leaves it
  stopped before the new node plays.
\<close>

theorem at_most_one_active_engine:
  "length (active_engines (run evs (initial strict))) \<le> 1
   \<and> (\<forall>n \<in> set (detached (run evs (initial strict))).
         \<not> active (currentTime (run evs (initial strict))) n)
   \<and> (\<forall>b n s'. sourceNodeRef (run evs (initial strict)) = Some n
           \<and> playAudio_resumed b (run evs (initial strict)) = Returned s'
         \<longrightarrow> n\<lparr>playback := Stopped\<rparr> \<in> set (detached s') \<and> length (active_engines s') \<le> 1)"
proof -
  let ?s = "run evs (initial strict)"
  have i: "detached_silent ?s"
    using detached_silent_initial by (rule detached_silent_run)
  have a: "length (active_engines ?s) \<le> 1"
    using i by (rule detached_silent_one_engine)
  have b: "\<forall>n \<in> set (detached ?s). \<not> active (currentTime ?s) n"
    using i by (simp add: detached_silent_def)
  have c: "\<forall>b n s'. sourceNodeRef ?s = Some n \<and> playAudio_resumed b ?s = Returned s'
         \<longrightarrow> n\<lparr>playback := Stopped\<rparr> \<in> set (detached s') \<and> length (active_engines s') \<le> 1"
  proof (intro allI impI)
    fix b n s'
    assume h: "sourceNodeRef ?s = Some n \<and> playAudio_resumed b ?s = Returned s'"
    then have "n\<lparr>playback := Stopped\<rparr> \<in> set (detached s')"
      using playAudio_resumed_stops_old by blast
    moreover have "detached_silent (state_of (playAudio_resumed b ?s))"
      using i by (rule detached_silent_playAudio_resumed)
    then have "detached_silent s'" using h by simp
    then have "length (active_engines s') \<le> 1" by (rule detached_silent_one_engine)
    ultimately show "n\<lparr>playback := Stopped\<rparr> \<in> set (detached s') \<and> length (active_engines s') \<le> 1"
      by simp
  qed
  show ?thesis by (intro conjI; fact a b c)
qed

theorem at_most_one_active_engine_witness:
  "sourceNodeRef (run [Mount Running, SampleReplaced (Some \<lparr>duration = 10\<rparr>), PlayAudio, Elapse 3] (initial False))
     = Some \<lparr>buffer = Some \<lparr>duration = 10\<rparr>, connected = True, playback = Started 0 0\<rparr>
   \<and> (\<exists>s'. playAudio_resumed \<lparr>duration = 10\<rparr>
              (run [Mount Running, SampleReplaced (Some \<lparr>duration = 10\<rparr>), PlayAudio, Elapse 3] (initial False))
            = Returned s'
          \<and> \<lparr>buffer = Some \<lparr>duration = 10\<rparr>, connected = True, playback = Stopped\<rparr> \<in> set (detached s')
          \<and> length (active_engines s') \<le> 1)
   \<and> length (active_engines
        (run [Mount Running, SampleReplaced (Some \<lparr>duration = 10\<rparr>), PlayAudio, Elapse 3] (initial False))) = 1"
  using at_most_one_active_engine[of
      "[Mount Running, SampleReplaced (Some \<lparr>duration = 10\<rparr>), PlayAudio, Elapse 3]" False]
  by (simp only: midrun_state)
     (simp add: playAudio_resumed_cases updateProgress_cases node_stop_def active_def
        active_engines_def engines_def)

section \<open>Reset and replacement of the sample\<close>

lemma stopAudio_detached:
  "detached (state_of (stopAudio s)) =
     detached s @
       (case sourceNodeRef s of
          None \<Rightarrow> []
        | Some n \<Rightarrow> [case node_stop (strictStop s) (currentTime s) n of
                       Inl e \<Rightarrow> n
                     | Inr n' \<Rightarrow> n'\<lparr>connected := False\<rparr>])"
  by (simp add: stopAudio_eq)

lemma stopAudio_stops_active:
  assumes "sourceNodeRef s = Some n" and "active (currentTime s) n"
  shows "detached (state_of (stopAudio s)) =
           detached s @ [n\<lparr>playback := Stopped, connected := False\<rparr>]"
proof -
  from assms(2) have "node_stop (strictStop s) (currentTime s) n = Inr (n\<lparr>playback := Stopped\<rparr>)"
    by (auto simp: node_stop_def active_def split: playback_state.splits)
  with assms(1) show ?thesis by (simp add: stopAudio_detached)
qed

lemma stopAudio_silent:
  assumes "detached_silent s"
  shows "active_engines (state_of (stopAudio s)) = []"
proof -
  from assms have "detached_silent (state_of (stopAudio s))" by (rule detached_silent_stopAudio)
  then show ?thesis
    by (simp add: active_engines_def engines_def stopAudio_fields detached_silent_def
        filter_empty_conv)
qed

lemma active_engines_reset_fields:
  "active_engines (s\<lparr>pauseTimeRef := p, progress := q\<rparr>) = active_engines s"
  by (simp add: active_engines_def engines_def)

lemma resetAudio_silent:
  "detached_silent s \<Longrightarrow> active_engines (state_of (resetAudio s)) = []"
  by (simp add: resetAudio_eq active_engines_reset_fields stopAudio_silent)

lemma sampleReplaced_silent:
  assumes "detached_silent s"
  shows "active_engines (state_of (sampleReplaced nb s)) = []"
proof -
  have "detached_silent (editModeEffect (receiveSample nb s))"
    using assms by (simp add: detached_silent_def editModeEffect_fields receiveSample_def)
  then show ?thesis
    by (simp add: sampleReplaced_resetAudio resetAudio_silent)
qed

lemma play_from_beginning:
  assumes "sourceNodeRef s = None" and "pauseTimeRef s = 0" and "contextCreated s"
    and "contextState s = Running" and "audioBuffer s = Some b" and "0 < duration b"
  shows "\<exists>s'. playAudio s = Returned s' \<and> started_at 0 b s s' \<and> progress s' = 0"
proof -
  have "\<exists>s'. playAudio_resumed b s = Returned s' \<and> started_at (pauseTimeRef s) b s s'
           \<and> progress s' = pauseTimeRef s / duration b * 100"
    using assms by (intro playAudio_resumed_started_at) simp_all
  with assms show ?thesis by (simp add: playAudio_running)
qed

lemma play_from_beginning_suspended:
  assumes "sourceNodeRef s = None" and "pauseTimeRef s = 0" and "contextCreated s"
    and "contextState s = Suspended" and "pendingPlays s = []"
    and "audioBuffer s = Some b" and "0 < duration b"
  shows "started_at 0 b s (contextResumed (state_of (playAudio s)))"
  using playAudio_suspended_started_at[of s b] assms by simp

text \<open>
  What \<open>resetAudio\<close> leaves, from any state \<open>t\<close>.
\<close>

lemma reset_result:
  fixes t :: player
  defines "r \<equiv> (state_of (stopAudio t))\<lparr>pauseTimeRef := 0, progress := 0\<rparr>"
  shows "resetAudio t = Returned r"
    and "\<not> isPlaying r" and "sourceNodeRef r = None" and "torn_down t r"
    and "\<forall>n. sourceNodeRef t = Some n \<and> active (currentTime t) n
           \<longrightarrow> detached r = detached t @ [n\<lparr>playback := Stopped, connected := False\<rparr>]"
    and "detached_silent t \<longrightarrow> active_engines r = []"
    and "pauseTimeRef r = 0" and "progress r = 0" and "progressFraction r = 0"
    and "audioBuffer r = audioBuffer t"
    and "\<forall>b. contextCreated r \<and> contextState r = Running \<and> audioBuffer r = Some b
              \<and> 0 < duration b
           \<longrightarrow> (\<exists>s''. playAudio r = Returned s'' \<and> started_at 0 b r s'' \<and> progress s'' = 0)"
    and "\<forall>b. contextCreated r \<and> contextState r = Suspended \<and> pendingPlays r = []
              \<and> audioBuffer r = Some b \<and> 0 < duration b
           \<longrightarrow> started_at 0 b r (contextResumed (state_of (playAudio r)))"
proof -
  show "resetAudio t = Returned r" unfolding r_def by (rule resetAudio_eq)
  show n: "sourceNodeRef r = None" and p: "pauseTimeRef r = 0"
    and "\<not> isPlaying r" and "progress r = 0" and "progressFraction r = 0"
    and "audioBuffer r = audioBuffer t"
    unfolding r_def by (simp_all add: stopAudio_fields progressFraction_def)
  have "torn_down t (state_of (stopAudio t))" by (rule stopAudio_torn_down)
  then show "torn_down t r" unfolding r_def by (simp add: torn_down_def)
  show "\<forall>n. sourceNodeRef t = Some n \<and> active (currentTime t) n
           \<longrightarrow> detached r = detached t @ [n\<lparr>playback := Stopped, connected := False\<rparr>]"
    unfolding r_def by (simp add: stopAudio_stops_active)
  show "detached_silent t \<longrightarrow> active_engines r = []"
    unfolding r_def by (simp add: active_engines_reset_fields stopAudio_silent)
  show "\<forall>b. contextCreated r \<and> contextState r = Running \<and> audioBuffer r = Some b
              \<and> 0 < duration b
           \<longrightarrow> (\<exists>s''. playAudio r = Returned s'' \<and> started_at 0 b r s'' \<and> progress s'' = 0)"
    using play_from_beginning[OF n p] by blast
  show "\<forall>b. contextCreated r \<and> contextState r = Suspended \<and> pendingPlays r = []
              \<and> audioBuffer r = Some b \<and> 0 < duration b
           \<longrightarrow> started_at 0 b r (contextResumed (state_of (playAudio r)))"
    using play_from_beginning_suspended[OF n p] by blast
qed

lemma playing_state_received:
  "receiveSample (Some \<lparr>duration = 20\<rparr>)
     (run [Mount Running, SampleReplaced (Some \<lparr>duration = 10\<rparr>), PlayAudio, Elapse 3, AnimationFrame 1]
          (initial False)) =
   \<lparr>audioBuffer = Some \<lparr>duration = 20\<rparr>, script = EmptyScript, allowScriptEdit = False,
      isGeneratingAudio = False, isPlaying = True, progress = 30, isEditing = False,
      contextCreated = True, contextState = Running, currentTime = 3,
      sourceNodeRef = Some \<lparr>buffer = Some \<lparr>duration = 10\<rparr>, connected = True, playback = Started 0 0\<rparr>,
      startTimeRef = 0, pauseTimeRef = 0, animationFrameRef = 2,
      strictStop = False, detached = [], frames = [(2, Some \<lparr>duration = 10\<rparr>)], nextFrame = 3,
      pendingPlays = []\<rparr>"
  by (simp only: playing_state) (simp add: receiveSample_def)

text \<open>
  Claim C3, as stated, fails in the order it requires of a replacement: the component
  adopts the new sample first and resets second. A sample of 10 seconds has been playing
  for 3 seconds when a sample of 20 seconds arrives. In the render that receives it the
  component has the new sample, whose duration it displays as \<open>00:20\<close>, while the session
  is still playing, at 30 percent, with the engine of the old sample active; the reset is
  what the effects do after this render.
\<close>

theorem sample_adopted_before_reset:
  "audioBuffer (receiveSample (Some \<lparr>duration = 20\<rparr>)
      (run [Mount Running, SampleReplaced (Some \<lparr>duration = 10\<rparr>), PlayAudio, Elapse 3,
            AnimationFrame 1] (initial False))) = Some \<lparr>duration = 20\<rparr>
   \<and> durationLabel (receiveSample (Some \<lparr>duration = 20\<rparr>)
      (run [Mount Running, SampleReplaced (Some \<lparr>duration = 10\<rparr>), PlayAudio, Elapse 3,
            AnimationFrame 1] (initial False))) = ''00:20''
   \<and> isPlaying (receiveSample (Some \<lparr>duration = 20\<rparr>)
      (run [Mount Running, SampleReplaced (Some \<lparr>duration = 10\<rparr>), PlayAudio, Elapse 3,
            AnimationFrame 1] (initial False)))
   \<and> progress (receiveSample (Some \<lparr>duration = 20\<rparr>)
      (run [Mount Running, SampleReplaced (Some \<lparr>duration = 10\<rparr>), PlayAudio, Elapse 3,
            AnimationFrame 1] (initial False))) = 30
   \<and> active_engines (receiveSample (Some \<lparr>duration = 20\<rparr>)
      (run [Mount Running, SampleReplaced (Some \<lparr>duration = 10\<rparr>), PlayAudio, Elapse 3,
            AnimationFrame 1] (initial False)))
       = [\<lparr>buffer = Some \<lparr>duration = 10\<rparr>, connected = True, playback = Started 0 0\<rparr>]
   \<and> sampleReplaced (Some \<lparr>duration = 20\<rparr>)
      (run [Mount Running, SampleReplaced (Some \<lparr>duration = 10\<rparr>), PlayAudio, Elapse 3,
            AnimationFrame 1] (initial False))
       = resetAudio (editModeEffect (receiveSample (Some \<lparr>duration = 20\<rparr>)
          (run [Mount Running, SampleReplaced (Some \<lparr>duration = 10\<rparr>), PlayAudio, Elapse 3,
                AnimationFrame 1] (initial False))))"
proof -
  have f: "formatTime 20 = ''00:20''"
    unfolding formatTime_def Let_def by (simp add: small_time_defs)
  show ?thesis
    by (simp only: sampleReplaced_resetAudio playing_state_received)
       (simp add: durationLabel_def f active_engines_def engines_def active_def)
qed

text \<open>
  Claim C3, amended. From any state, \<open>resetAudio\<close> returns and leaves the session in its
  initial state: \<open>isPlaying\<close> is false, there is no engine in \<open>sourceNodeRef\<close>, the loop's
  pending frame is cancelled, an engine that was playing has been stopped and
  disconnected, no engine is active any more (in a state in which only the engine of
  \<open>sourceNodeRef\<close> could be active, which is every state the component can reach),
  \<open>pauseTimeRef = 0\<close> and \<open>progress = 0\<close>; a following \<open>playAudio\<close> starts an engine at
  offset 0 with \<open>startTimeRef\<close> equal to the current context time, at once when the
  context is running and at the moment it resumes when it is suspended. A replacement of
  the sample adopts the new sample in the render and then runs this reset, so that
  afterwards the session is in the same initial state, on the new sample.
\<close>

theorem resetAudio_restores_initial_session:
  "(\<exists>s'. resetAudio s = Returned s'
         \<and> \<not> isPlaying s' \<and> sourceNodeRef s' = None \<and> torn_down s s'
         \<and> (\<forall>n. sourceNodeRef s = Some n \<and> active (currentTime s) n
               \<longrightarrow> detached s' = detached s @ [n\<lparr>playback := Stopped, connected := False\<rparr>])
         \<and> (detached_silent s \<longrightarrow> active_engines s' = [])
         \<and> pauseTimeRef s' = 0 \<and> progress s' = 0 \<and> progressFraction s' = 0
         \<and> audioBuffer s' = audioBuffer s
         \<and> (\<forall>b. contextCreated s' \<and> contextState s' = Running \<and> audioBuffer s' = Some b
                 \<and> 0 < duration b
               \<longrightarrow> (\<exists>s''. playAudio s' = Returned s'' \<and> started_at 0 b s' s'' \<and> progress s'' = 0))
         \<and> (\<forall>b. contextCreated s' \<and> contextState s' = Suspended \<and> pendingPlays s' = []
                 \<and> audioBuffer s' = Some b \<and> 0 < duration b
               \<longrightarrow> started_at 0 b s' (contextResumed (state_of (playAudio s')))))
   \<and> (\<exists>s'. sampleReplaced newBuffer s = Returned s'
         \<and> \<not> isPlaying s' \<and> sourceNodeRef s' = None \<and> torn_down s s'
         \<and> (\<forall>n. sourceNodeRef s = Some n \<and> active (currentTime s) n
               \<longrightarrow> detached s' = detached s @ [n\<lparr>playback := Stopped, connected := False\<rparr>])
         \<and> (detached_silent s \<longrightarrow> active_engines s' = [])
         \<and> pauseTimeRef s' = 0 \<and> progress s' = 0 \<and> progressFraction s' = 0
         \<and> audioBuffer s' = newBuffer
         \<and> (\<forall>b. contextCreated s' \<and> contextState s' = Running \<and> audioBuffer s' = Some b
                 \<and> 0 < duration b
               \<longrightarrow> (\<exists>s''. playAudio s' = Returned s'' \<and> started_at 0 b s' s'' \<and> progress s'' = 0))
         \<and> (\<forall>b. contextCreated s' \<and> contextState s' = Suspended \<and> pendingPlays s' = []
                 \<and> audioBuffer s' = Some b \<and> 0 < duration b
               \<longrightarrow> started_at 0 b s' (contextResumed (state_of (playAudio s')))))
   \<and> sampleReplaced newBuffer s = resetAudio (editModeEffect (receiveSample newBuffer s))
   \<and> active_engines (state_of (resetAudio (run evs (initial strict)))) = []
   \<and> active_engines (state_of (sampleReplaced newBuffer (run evs (initial strict)))) = []"
proof -
  let ?r = "(state_of (stopAudio s))\<lparr>pauseTimeRef := 0, progress := 0\<rparr>"
  let ?t = "editModeEffect (receiveSample newBuffer s)"
  let ?n = "(state_of (stopAudio ?t))\<lparr>pauseTimeRef := 0, progress := 0\<rparr>"
  note r = reset_result[of s]
  note n = reset_result[of ?t]
  have t: "sourceNodeRef ?t = sourceNodeRef s" "currentTime ?t = currentTime s"
    "detached ?t = detached s" "audioBuffer ?t = newBuffer"
    "animationFrameRef ?t = animationFrameRef s" "frames ?t = frames s"
    by (simp_all add: editModeEffect_fields receiveSample_def)
  have en: "sampleReplaced newBuffer s = Returned ?n" by (rule sampleReplaced_eq)
  have n4: "torn_down s ?n" using n(4) by (simp add: torn_down_def t)
  have n5: "\<forall>n. sourceNodeRef s = Some n \<and> active (currentTime s) n
               \<longrightarrow> detached ?n = detached s @ [n\<lparr>playback := Stopped, connected := False\<rparr>]"
    using n(5) by (simp only: t)
  have n6: "detached_silent s \<longrightarrow> active_engines ?n = []"
    using n(6) by (simp only: detached_silent_def t)
  have n10: "audioBuffer ?n = newBuffer" using n(10) by (simp only: t)
  have o: "sampleReplaced newBuffer s = resetAudio ?t" by (rule sampleReplaced_resetAudio)
  have i: "detached_silent (run evs (initial strict))"
    using detached_silent_initial by (rule detached_silent_run)
  have a1: "active_engines (state_of (resetAudio (run evs (initial strict)))) = []"
    using i by (rule resetAudio_silent)
  have a2: "active_engines (state_of (sampleReplaced newBuffer (run evs (initial strict)))) = []"
    using i by (rule sampleReplaced_silent)
  show ?thesis
    by (intro conjI exI[of _ ?r] exI[of _ ?n];
        fact r(1-3,5-12) r(4) en n(2,3,7-9,11,12) n4 n5 n6 n10 o a1 a2)
qed

theorem resetAudio_restores_initial_session_witness:
  "sourceNodeRef (run [Mount Running, SampleReplaced (Some \<lparr>duration = 10\<rparr>), PlayAudio, Elapse 3] (initial False))
     = Some \<lparr>buffer = Some \<lparr>duration = 10\<rparr>, connected = True, playback = Started 0 0\<rparr>
   \<and> active (currentTime (run [Mount Running, SampleReplaced (Some \<lparr>duration = 10\<rparr>), PlayAudio, Elapse 3] (initial False)))
        \<lparr>buffer = Some \<lparr>duration = 10\<rparr>, connected = True, playback = Started 0 0\<rparr>
   \<and> detached_silent (run [Mount Running, SampleReplaced (Some \<lparr>duration = 10\<rparr>), PlayAudio, Elapse 3] (initial False))
   \<and> (\<exists>s'. resetAudio (run [Mount Running, SampleReplaced (Some \<lparr>duration = 10\<rparr>), PlayAudio, Elapse 3] (initial False)) = Returned s'
      \<and> detached s' = [\<lparr>buffer = Some \<lparr>duration = 10\<rparr>, connected = False, playback = Stopped\<rparr>]
      \<and> active_engines s' = []
      \<and> contextCreated s' \<and> contextState s' = Running \<and> audioBuffer s' = Some \<lparr>duration = 10\<rparr>
      \<and> (0::real) < duration \<lparr>duration = 10\<rparr>
      \<and> pauseTimeRef s' = 0 \<and> progress s' = 0
      \<and> (\<exists>s''. playAudio s' = Returned s'' \<and> started_at 0 \<lparr>duration = 10\<rparr> s' s''))"
proof -
  let ?w = "run [Mount Running, SampleReplaced (Some \<lparr>duration = 10\<rparr>), PlayAudio, Elapse 3] (initial False)"
  let ?e = "\<lparr>buffer = Some \<lparr>duration = 10\<rparr>, connected = True, playback = Started 0 0\<rparr>"
  have w: "sourceNodeRef ?w = Some ?e" "active (currentTime ?w) ?e" "detached_silent ?w"
    "detached ?w = []" "contextCreated ?w" "contextState ?w = Running"
    "audioBuffer ?w = Some \<lparr>duration = 10\<rparr>"
    by (simp_all only: midrun_state) (simp_all add: active_def detached_silent_def)
  from resetAudio_restores_initial_session[of ?w]
  have "\<exists>s'. resetAudio ?w = Returned s'
         \<and> \<not> isPlaying s' \<and> sourceNodeRef s' = None \<and> torn_down ?w s'
         \<and> (\<forall>n. sourceNodeRef ?w = Some n \<and> active (currentTime ?w) n
               \<longrightarrow> detached s' = detached ?w @ [n\<lparr>playback := Stopped, connected := False\<rparr>])
         \<and> (detached_silent ?w \<longrightarrow> active_engines s' = [])
         \<and> pauseTimeRef s' = 0 \<and> progress s' = 0 \<and> progressFraction s' = 0
         \<and> audioBuffer s' = audioBuffer ?w
         \<and> (\<forall>b. contextCreated s' \<and> contextState s' = Running \<and> audioBuffer s' = Some b
                 \<and> 0 < duration b
               \<longrightarrow> (\<exists>s''. playAudio s' = Returned s'' \<and> started_at 0 b s' s'' \<and> progress s'' = 0))
         \<and> (\<forall>b. contextCreated s' \<and> contextState s' = Suspended \<and> pendingPlays s' = []
                 \<and> audioBuffer s' = Some b \<and> 0 < duration b
               \<longrightarrow> started_at 0 b s' (contextResumed (state_of (playAudio s'))))"
    by (rule conjunct1)
  then obtain s' where r: "resetAudio ?w = Returned s'"
    and d: "\<forall>n. sourceNodeRef ?w = Some n \<and> active (currentTime ?w) n
               \<longrightarrow> detached s' = detached ?w @ [n\<lparr>playback := Stopped, connected := False\<rparr>]"
    and a: "detached_silent ?w \<longrightarrow> active_engines s' = []"
    and z: "pauseTimeRef s' = 0" "progress s' = 0"
    and p: "\<forall>b. contextCreated s' \<and> contextState s' = Running \<and> audioBuffer s' = Some b
                 \<and> 0 < duration b
               \<longrightarrow> (\<exists>s''. playAudio s' = Returned s'' \<and> started_at 0 b s' s'' \<and> progress s'' = 0)"
    by (elim exE conjE)
  from d w(1,2) have "detached s' = detached ?w @ [?e\<lparr>playback := Stopped, connected := False\<rparr>]"
    by blast
  then have c1: "detached s' = [\<lparr>buffer = Some \<lparr>duration = 10\<rparr>, connected = False, playback = Stopped\<rparr>]"
    by (simp only: w(4)) simp
  from a w(3) have c2: "active_engines s' = []" by simp
  have "s' = state_of (resetAudio ?w)" using r by simp
  then have f: "contextCreated s'" "contextState s' = Running" "audioBuffer s' = Some \<lparr>duration = 10\<rparr>"
    by (simp_all only: midrun_state) (simp_all add: resetAudio_eq stopAudio_fields)
  have g: "(0::real) < duration \<lparr>duration = 10\<rparr>" by simp
  from p f g have c3: "\<exists>s''. playAudio s' = Returned s'' \<and> started_at 0 \<lparr>duration = 10\<rparr> s' s''"
    by blast
  have e: "\<exists>s'. resetAudio ?w = Returned s'
      \<and> detached s' = [\<lparr>buffer = Some \<lparr>duration = 10\<rparr>, connected = False, playback = Stopped\<rparr>]
      \<and> active_engines s' = []
      \<and> contextCreated s' \<and> contextState s' = Running \<and> audioBuffer s' = Some \<lparr>duration = 10\<rparr>
      \<and> (0::real) < duration \<lparr>duration = 10\<rparr>
      \<and> pauseTimeRef s' = 0 \<and> progress s' = 0
      \<and> (\<exists>s''. playAudio s' = Returned s'' \<and> started_at 0 \<lparr>duration = 10\<rparr> s' s'')"
    by (rule exI[of _ s'], intro conjI; fact r c1 c2 f g z c3)
  show ?thesis by (intro conjI; fact w(1-3) e)
qed

section \<open>Calls outside their precondition\<close>

lemma paused_state:
  "run [Mount Running, SampleReplaced (Some \<lparr>duration = 10\<rparr>), PlayAudio, Elapse 3, PauseAudio, Elapse 2]
       (initial False) =
   \<lparr>audioBuffer = Some \<lparr>duration = 10\<rparr>, script = EmptyScript, allowScriptEdit = False,
      isGeneratingAudio = False, isPlaying = False, progress = 30, isEditing = False,
      contextCreated = True, contextState = Running, currentTime = 5,
      sourceNodeRef = None, startTimeRef = 0, pauseTimeRef = 3, animationFrameRef = 1,
      strictStop = False,
      detached = [\<lparr>buffer = Some \<lparr>duration = 10\<rparr>, connected = False, playback = Stopped\<rparr>],
      frames = [], nextFrame = 2, pendingPlays = []\<rparr>"
  by (simp add: model_defs)

text \<open>
  Claim C6, as stated, fails. A sample of 10 seconds is played for 3 seconds and paused;
  2 seconds later a second \<open>pauseAudio\<close> moves \<open>pauseTimeRef\<close> from 3 to 5 and the
  progress from 30 to 50 percent. And a second \<open>playAudio\<close> after 3 seconds of playing
  restarts the sample at offset 0: a pause 2 seconds later stores 2, not 5.
\<close>

theorem extra_pause_or_play_changes_session:
  "\<not> isPlaying (run [Mount Running, SampleReplaced (Some \<lparr>duration = 10\<rparr>), PlayAudio, Elapse 3,
                      PauseAudio, Elapse 2] (initial False))
   \<and> pauseTimeRef (run [Mount Running, SampleReplaced (Some \<lparr>duration = 10\<rparr>), PlayAudio, Elapse 3,
                        PauseAudio, Elapse 2] (initial False)) = 3
   \<and> pauseTimeRef (run [Mount Running, SampleReplaced (Some \<lparr>duration = 10\<rparr>), PlayAudio, Elapse 3,
                        PauseAudio, Elapse 2, PauseAudio] (initial False)) = 5
   \<and> progress (run [Mount Running, SampleReplaced (Some \<lparr>duration = 10\<rparr>), PlayAudio, Elapse 3,
                     PauseAudio, Elapse 2] (initial False)) = 30
   \<and> progress (run [Mount Running, SampleReplaced (Some \<lparr>duration = 10\<rparr>), PlayAudio, Elapse 3,
                     PauseAudio, Elapse 2, PauseAudio] (initial False)) = 50
   \<and> isPlaying (run [Mount Running, SampleReplaced (Some \<lparr>duration = 10\<rparr>), PlayAudio, Elapse 3]
                   (initial False))
   \<and> pauseTimeRef (run [Mount Running, SampleReplaced (Some \<lparr>duration = 10\<rparr>), PlayAudio, Elapse 3,
                        Elapse 2, PauseAudio] (initial False)) = 5
   \<and> pauseTimeRef (run [Mount Running, SampleReplaced (Some \<lparr>duration = 10\<rparr>), PlayAudio, Elapse 3,
                        PlayAudio, Elapse 2, PauseAudio] (initial False)) = 2"
  by (simp add: model_defs)

text \<open>
  Claim C6, amended. With a context running and a sample loaded: \<open>pauseAudio\<close> on a
  session without an engine stores \<open>currentTime - startTimeRef\<close> into \<open>pauseTimeRef\<close>
  and the matching percentage into \<open>progress\<close>, and changes nothing else about the
  session; it changes nothing at all when the stored values already are these.
  \<open>playAudio\<close> on a session whose engine is running stops that engine and starts a new
  one at the stored \<open>pauseTimeRef\<close>, with \<open>startTimeRef = currentTime - pauseTimeRef\<close>.
  The play/pause button, which is enabled with a sample loaded and outside edit mode
  only, calls \<open>pauseAudio\<close> only while \<open>isPlaying\<close> and \<open>playAudio\<close> only otherwise; in
  edit mode a click on it does nothing.
\<close>

theorem extra_pause_or_play_effect:
  assumes "contextCreated s" and "contextState s = Running"
    and "audioBuffer s = Some b" and "0 < duration b"
  shows "(sourceNodeRef s = None \<longrightarrow>
            (\<exists>s'. pauseAudio s = Returned s'
                \<and> pauseTimeRef s' = currentTime s - startTimeRef s
                \<and> progress s' = (currentTime s - startTimeRef s) / duration b * 100
                \<and> \<not> isPlaying s' \<and> sourceNodeRef s' = None
                \<and> startTimeRef s' = startTimeRef s \<and> detached s' = detached s
                \<and> (\<not> isPlaying s \<and> pauseTimeRef s = currentTime s - startTimeRef s
                     \<and> progress s = pauseTimeRef s / duration b * 100
                     \<and> animationFrameRef s \<notin> fst ` set (frames s)
                   \<longrightarrow> s' = s)))
       \<and> (\<forall>n. sourceNodeRef s = Some n \<and> active (currentTime s) n
                \<and> 0 \<le> pauseTimeRef s \<and> pauseTimeRef s < duration b \<longrightarrow>
            (\<exists>s'. playAudio s = Returned s'
                \<and> started_at (pauseTimeRef s) b s s'
                \<and> detached s' = detached s @ [n\<lparr>playback := Stopped\<rparr>]
                \<and> frames s' = frames s @ [(nextFrame s, Some b)]))
       \<and> togglePlayback s =
           (if isEditing s then Returned s else if isPlaying s then pauseAudio s else playAudio s)"
proof -
  let ?e = "currentTime s - startTimeRef s"
  let ?p = "(state_of (stopAudio (s\<lparr>pauseTimeRef := ?e\<rparr>)))\<lparr>progress := ?e / duration b * 100\<rparr>"
  have pe: "pauseAudio s = Returned ?p"
    using assms(1,3) by (simp add: pauseAudio_eq Let_def)
  have a: "sourceNodeRef s = None \<longrightarrow>
            (\<exists>s'. pauseAudio s = Returned s'
                \<and> pauseTimeRef s' = currentTime s - startTimeRef s
                \<and> progress s' = (currentTime s - startTimeRef s) / duration b * 100
                \<and> \<not> isPlaying s' \<and> sourceNodeRef s' = None
                \<and> startTimeRef s' = startTimeRef s \<and> detached s' = detached s
                \<and> (\<not> isPlaying s \<and> pauseTimeRef s = currentTime s - startTimeRef s
                     \<and> progress s = pauseTimeRef s / duration b * 100
                     \<and> animationFrameRef s \<notin> fst ` set (frames s)
                   \<longrightarrow> s' = s))"
  proof
    assume n: "sourceNodeRef s = None"
    have f: "pauseTimeRef ?p = ?e" "progress ?p = ?e / duration b * 100"
      "\<not> isPlaying ?p" "sourceNodeRef ?p = None" "startTimeRef ?p = startTimeRef s"
      by (simp_all add: stopAudio_fields)
    have d: "detached ?p = detached s" using n by (simp add: stopAudio_eq)
    have same: "\<not> isPlaying s \<and> pauseTimeRef s = ?e
                     \<and> progress s = pauseTimeRef s / duration b * 100
                     \<and> animationFrameRef s \<notin> fst ` set (frames s)
                   \<longrightarrow> ?p = s"
    proof
      assume h: "\<not> isPlaying s \<and> pauseTimeRef s = ?e
                     \<and> progress s = pauseTimeRef s / duration b * 100
                     \<and> animationFrameRef s \<notin> fst ` set (frames s)"
      then have "\<forall>f \<in> set (frames s). fst f \<noteq> animationFrameRef s"
        by (auto simp: image_iff)
      then have "filter (\<lambda>f. fst f \<noteq> animationFrameRef s) (frames s) = frames s"
        by (simp add: filter_id_conv)
      with h n show "?p = s"
        by (simp add: stopAudio_eq)
    qed
    show "\<exists>s'. pauseAudio s = Returned s'
                \<and> pauseTimeRef s' = currentTime s - startTimeRef s
                \<and> progress s' = (currentTime s - startTimeRef s) / duration b * 100
                \<and> \<not> isPlaying s' \<and> sourceNodeRef s' = None
                \<and> startTimeRef s' = startTimeRef s \<and> detached s' = detached s
                \<and> (\<not> isPlaying s \<and> pauseTimeRef s = currentTime s - startTimeRef s
                     \<and> progress s = pauseTimeRef s / duration b * 100
                     \<and> animationFrameRef s \<notin> fst ` set (frames s)
                   \<longrightarrow> s' = s)"
      by (intro exI[of _ ?p] conjI; fact pe f d same)
  qed
  have b: "\<forall>n. sourceNodeRef s = Some n \<and> active (currentTime s) n
                \<and> 0 \<le> pauseTimeRef s \<and> pauseTimeRef s < duration b \<longrightarrow>
            (\<exists>s'. playAudio s = Returned s'
                \<and> started_at (pauseTimeRef s) b s s'
                \<and> detached s' = detached s @ [n\<lparr>playback := Stopped\<rparr>]
                \<and> frames s' = frames s @ [(nextFrame s, Some b)])"
  proof (intro allI impI)
    fix n
    assume h: "sourceNodeRef s = Some n \<and> active (currentTime s) n
                \<and> 0 \<le> pauseTimeRef s \<and> pauseTimeRef s < duration b"
    then have st: "node_stop (strictStop s) (currentTime s) n = Inr (n\<lparr>playback := Stopped\<rparr>)"
      by (auto simp: node_stop_def active_def split: playback_state.splits)
    let ?t = "s\<lparr>startTimeRef := currentTime s - pauseTimeRef s,
                 sourceNodeRef := Some \<lparr>buffer = Some b, connected = True,
                                        playback = Started (currentTime s) (pauseTimeRef s)\<rparr>,
                 detached := detached s @ [n\<lparr>playback := Stopped\<rparr>],
                 isPlaying := True\<rparr>"
    let ?r = "?t\<lparr>progress := (currentTime ?t - startTimeRef ?t) / duration b * 100,
                       frames := frames ?t @ [(nextFrame ?t, Some b)],
                       nextFrame := nextFrame ?t + 1,
                       animationFrameRef := nextFrame ?t\<rparr>"
    have "playAudio s = updateProgress (Some b) ?t"
      using assms(1,2,3) h st by (simp add: playAudio_running playAudio_resumed_cases)
    also have "\<dots> = Returned ?r"
      using assms(1,4) h by (intro updateProgress_tick) simp_all
    finally have e: "playAudio s = Returned ?r" .
    have c1: "started_at (pauseTimeRef s) b s ?r" by (simp add: started_at_def)
    have c2: "detached ?r = detached s @ [n\<lparr>playback := Stopped\<rparr>]" by simp
    have c3: "frames ?r = frames s @ [(nextFrame s, Some b)]" by simp
    show "\<exists>s'. playAudio s = Returned s'
                \<and> started_at (pauseTimeRef s) b s s'
                \<and> detached s' = detached s @ [n\<lparr>playback := Stopped\<rparr>]
                \<and> frames s' = frames s @ [(nextFrame s, Some b)]"
      by (intro exI[of _ ?r] conjI; fact e c1 c2 c3)
  qed
  have c: "togglePlayback s =
             (if isEditing s then Returned s else if isPlaying s then pauseAudio s else playAudio s)"
    using assms(3) by (simp add: togglePlayback_def)
  show ?thesis by (intro conjI; fact a b c)
qed

text \<open>The amended claim C6 at the two runs of its counterexample.\<close>

theorem extra_pause_or_play_effect_witness:
  "(\<exists>s'. pauseAudio (run [Mount Running, SampleReplaced (Some \<lparr>duration = 10\<rparr>), PlayAudio, Elapse 3,
                           PauseAudio, Elapse 2] (initial False)) = Returned s'
         \<and> pauseTimeRef s' = 5 \<and> progress s' = 50)
   \<and> (\<exists>s'. playAudio (run [Mount Running, SampleReplaced (Some \<lparr>duration = 10\<rparr>), PlayAudio, Elapse 3]
                          (initial False)) = Returned s'
         \<and> startTimeRef s' = 3
         \<and> detached s' = [\<lparr>buffer = Some \<lparr>duration = 10\<rparr>, connected = True, playback = Stopped\<rparr>])"
  using extra_pause_or_play_effect[of
      "run [Mount Running, SampleReplaced (Some \<lparr>duration = 10\<rparr>), PlayAudio, Elapse 3,
            PauseAudio, Elapse 2] (initial False)" "\<lparr>duration = 10\<rparr>"]
    extra_pause_or_play_effect[of
      "run [Mount Running, SampleReplaced (Some \<lparr>duration = 10\<rparr>), PlayAudio, Elapse 3] (initial False)"
      "\<lparr>duration = 10\<rparr>"]
  by (simp only: paused_state midrun_state) (auto simp: active_def started_at_def)

section \<open>Progress ticks and the time label\<close>

lemma timing_ok_stopAudio: "timing_ok (state_of (stopAudio s)) = timing_ok s"
  by (simp add: timing_ok_def stopAudio_fields)

lemma timing_ok_updateProgress:
  "timing_ok s \<Longrightarrow> timing_ok (state_of (updateProgress captured s))"
  by (auto simp: updateProgress_cases timing_ok_def stopAudio_fields split: option.splits)

lemma timing_ok_playAudio_resumed:
  assumes "timing_ok s"
  shows "timing_ok (state_of (playAudio_resumed b s))"
proof -
  from assms have p: "\<not> pauseTimeRef s < 0" by (simp add: timing_ok_def)
  have t: "timing_ok (s\<lparr>startTimeRef := currentTime s - pauseTimeRef s,
                         sourceNodeRef := r, detached := d, isPlaying := True\<rparr>)" for r d
    using assms by (simp add: timing_ok_def)
  have t': "timing_ok (s\<lparr>startTimeRef := currentTime s - pauseTimeRef s,
                         sourceNodeRef := r, isPlaying := True\<rparr>)" for r
    using assms by (simp add: timing_ok_def)
  show ?thesis
    unfolding playAudio_resumed_cases using assms p
    by (auto split: option.splits sum.splits intro!: timing_ok_updateProgress t t')
qed

lemma timing_ok_playAudio: "timing_ok s \<Longrightarrow> timing_ok (state_of (playAudio s))"
  by (auto simp: playAudio_def timing_ok_playAudio_resumed split: option.splits)
     (simp add: timing_ok_def)

lemma timing_ok_pauseAudio:
  assumes "timing_ok s"
  shows "timing_ok (state_of (pauseAudio s))"
proof (cases "contextCreated s")
  case False
  with assms show ?thesis by (simp add: pauseAudio_def)
next
  case True
  with assms show ?thesis
    by (simp add: pauseAudio_eq Let_def timing_ok_def stopAudio_fields split: option.splits)
qed

lemma timing_ok_resetAudio: "timing_ok s \<Longrightarrow> timing_ok (state_of (resetAudio s))"
  by (simp add: resetAudio_eq timing_ok_def stopAudio_fields)

lemma timing_ok_sampleReplaced: "timing_ok s \<Longrightarrow> timing_ok (state_of (sampleReplaced nb s))"
  by (simp add: sampleReplaced_eq timing_ok_def stopAudio_fields editModeEffect_fields
      receiveSample_def)

lemma timing_ok_mount: "timing_ok s \<Longrightarrow> timing_ok (state_of (mount c s))"
  by (simp add: mount_eq resetAudio_eq timing_ok_def stopAudio_fields editModeEffect_fields)

lemma timing_ok_buttons:
  "timing_ok s \<Longrightarrow> timing_ok (state_of (resetClicked s))"
  "timing_ok s \<Longrightarrow> timing_ok (state_of (editClicked s))"
  "timing_ok s \<Longrightarrow> timing_ok (state_of (confirmClicked s))"
  by (simp_all add: resetClicked_def editClicked_eq confirmClicked_def resetAudio_eq
      timing_ok_def stopAudio_fields)

lemma timing_ok_props:
  "timing_ok s \<Longrightarrow> timing_ok (scriptChanged c s)"
  "timing_ok s \<Longrightarrow> timing_ok (allowScriptEditChanged a s)"
  "timing_ok s \<Longrightarrow> timing_ok (generatingAudioChanged g s)"
  by (simp_all add: timing_ok_def scriptChanged_def allowScriptEditChanged_def
      generatingAudioChanged_def editModeEffect_fields)

lemma timing_ok_animationFrameFired:
  assumes "timing_ok s"
  shows "timing_ok (state_of (animationFrameFired h s))"
proof (cases "map_of (frames s) h")
  case None
  with assms show ?thesis by (simp add: animationFrameFired_def)
next
  case (Some captured)
  have "timing_ok (cancelAnimationFrame h s)"
    using assms by (simp add: timing_ok_def cancelAnimationFrame_def)
  from timing_ok_updateProgress[OF this] Some show ?thesis
    by (simp add: animationFrameFired_def returns_def)
qed

lemma timing_ok_pending:
  "timing_ok s \<Longrightarrow> timing_ok (fold (\<lambda>b s'. state_of (playAudio_resumed b s')) bs s)"
  by (induction bs arbitrary: s) (simp_all add: timing_ok_playAudio_resumed)

lemma timing_ok_contextResumed:
  assumes "timing_ok s"
  shows "timing_ok (contextResumed s)"
proof -
  have "timing_ok (s\<lparr>contextState := Running, pendingPlays := []\<rparr>)"
    using assms by (simp add: timing_ok_def)
  then show ?thesis unfolding contextResumed_def by (rule timing_ok_pending)
qed

lemma timing_ok_step: "timing_ok s \<Longrightarrow> timing_ok (step e s)"
proof (cases e)
  case (Elapse d)
  then show "timing_ok s \<Longrightarrow> timing_ok (step e s)"
    by (auto simp: timing_ok_def elapse_def)
qed (simp_all add: timing_ok_mount timing_ok_playAudio timing_ok_pauseAudio timing_ok_resetAudio
      timing_ok_stopAudio timing_ok_sampleReplaced timing_ok_contextResumed
      timing_ok_animationFrameFired timing_ok_buttons timing_ok_props togglePlayback_def)

lemma timing_ok_run: "timing_ok s \<Longrightarrow> timing_ok (run evs s)"
  by (induction evs arbitrary: s) (simp_all add: timing_ok_step)

lemma timing_ok_initial: "timing_ok (initial strict)"
  by (simp add: timing_ok_def initial_def)

text \<open>
  Every tick of a running session, in every reachable state, leaves a progress
  fraction between 0 and 1 (for a sample of positive duration).
\<close>

lemma tick_fraction_in_range:
  assumes "map_of (frames (run evs (initial strict))) h = Some (Some b)" and "0 < duration b"
    and "contextCreated (run evs (initial strict))"
    and "sourceNodeRef (run evs (initial strict)) \<noteq> None"
  shows "0 \<le> progressFraction (step (AnimationFrame h) (run evs (initial strict)))
       \<and> progressFraction (step (AnimationFrame h) (run evs (initial strict))) \<le> 1"
proof -
  let ?s = "run evs (initial strict)"
  let ?t = "cancelAnimationFrame h ?s"
  have "timing_ok ?s" using timing_ok_initial by (rule timing_ok_run)
  then have e: "0 \<le> currentTime ?t - startTimeRef ?t"
    by (simp add: timing_ok_def cancelAnimationFrame_def)
  have st: "step (AnimationFrame h) ?s = state_of (updateProgress (Some b) ?t)"
    using assms(1) by (simp add: animationFrameFired_def returns_def)
  have c: "contextCreated ?t" "sourceNodeRef ?t \<noteq> None"
    using assms(3,4) by (simp_all add: cancelAnimationFrame_def)
  show ?thesis
  proof (cases "100 \<le> (currentTime ?t - startTimeRef ?t) / duration b * 100")
    case True
    with c show ?thesis
      unfolding st updateProgress_cases
      by (auto simp: progressFraction_def stopAudio_fields)
  next
    case False
    moreover have "0 \<le> (currentTime ?t - startTimeRef ?t) / duration b * 100"
      using e assms(2) by simp
    ultimately show ?thesis
      using c unfolding st updateProgress_cases
      by (auto simp: progressFraction_def)
  qed
qed

text \<open>
  Claim C8 at a concrete run. A sample of 10 seconds has been playing for 3 seconds and
  a tick has published the fraction 3/10; the time rendered next to it is
  \<open>formatTime (pauseTimeRef)\<close>, which is still \<open>00:00\<close>, while the elapsed playback time
  is 3 seconds (\<open>00:03\<close>).
\<close>

theorem time_label_stale_while_playing:
  "isPlaying (run [Mount Running, SampleReplaced (Some \<lparr>duration = 10\<rparr>), PlayAudio, Elapse 3,
                   AnimationFrame 1] (initial False))
   \<and> progressFraction (run [Mount Running, SampleReplaced (Some \<lparr>duration = 10\<rparr>), PlayAudio, Elapse 3,
                             AnimationFrame 1] (initial False)) = 3 / 10
   \<and> currentTime (run [Mount Running, SampleReplaced (Some \<lparr>duration = 10\<rparr>), PlayAudio, Elapse 3,
                        AnimationFrame 1] (initial False))
     - startTimeRef (run [Mount Running, SampleReplaced (Some \<lparr>duration = 10\<rparr>), PlayAudio, Elapse 3,
                        AnimationFrame 1] (initial False)) = 3
   \<and> formatTime 3 = ''00:03''
   \<and> timeLabel (run [Mount Running, SampleReplaced (Some \<lparr>duration = 10\<rparr>), PlayAudio, Elapse 3,
                      AnimationFrame 1] (initial False)) = ''00:00''
   \<and> durationLabel (run [Mount Running, SampleReplaced (Some \<lparr>duration = 10\<rparr>), PlayAudio, Elapse 3,
                      AnimationFrame 1] (initial False)) = ''00:10''"
proof -
  have f: "formatTime 0 = ''00:00''" "formatTime 3 = ''00:03''" "formatTime 10 = ''00:10''"
    unfolding formatTime_def Let_def by (simp_all add: small_time_defs)
  show ?thesis
    by (simp only: playing_state)
       (simp add: progressFraction_def timeLabel_def durationLabel_def f)
qed

end
